theory Spec2Isabelle
  imports Main "HOL-Library.Word" "HOL-Library.Sublist"
begin

unbundle bit_operations_syntax

section \<open>JavaScript strings and byte buffers\<close>

text \<open>
  A JavaScript string is a sequence of UTF-16 code units; a Node \<open>Buffer\<close> is a sequence
  of bytes.  Source literals are ASCII and are written through \<open>js\<close>.
\<close>

type_synonym jsstring = "16 word list"
type_synonym byte = "8 word"

definition js :: "string \<Rightarrow> jsstring" where
  "js s = map (\<lambda>c. of_nat (of_char c)) s"

definition is_high :: "16 word \<Rightarrow> bool" where
  "is_high u \<longleftrightarrow> 0xD800 \<le> unat u \<and> unat u < 0xDC00"

definition is_low :: "16 word \<Rightarrow> bool" where
  "is_low u \<longleftrightarrow> 0xDC00 \<le> unat u \<and> unat u < 0xE000"

definition pair_cp :: "16 word \<Rightarrow> 16 word \<Rightarrow> nat" where
  "pair_cp u v = 0x10000 + (unat u - 0xD800) * 0x400 + (unat v - 0xDC00)"

text \<open>The UTF-8 bytes of one code point.\<close>

definition enc_cp :: "nat \<Rightarrow> byte list" where
  "enc_cp cp =
     (if cp < 0x80 then [of_nat cp]
      else if cp < 0x800 then [of_nat (0xC0 + cp div 64), of_nat (0x80 + cp mod 64)]
      else if cp < 0x10000 then
        [of_nat (0xE0 + cp div 4096), of_nat (0x80 + cp div 64 mod 64), of_nat (0x80 + cp mod 64)]
      else
        [of_nat (0xF0 + cp div 262144), of_nat (0x80 + cp div 4096 mod 64),
         of_nat (0x80 + cp div 64 mod 64), of_nat (0x80 + cp mod 64)])"

text \<open>
  A code unit that is not part of a surrogate pair: an unpaired surrogate has no UTF-8
  form and Node writes U+FFFD (EF BF BD) in its place.
\<close>

definition enc_unit :: "16 word \<Rightarrow> byte list" where
  "enc_unit u = (if is_high u \<or> is_low u then [0xEF, 0xBF, 0xBD] else enc_cp (unat u))"

text \<open>\<open>Buffer.from(str)\<close> (encoding \<open>utf8\<close>); JSZip stores a string entry the same way.\<close>

fun utf8_encode :: "jsstring \<Rightarrow> byte list" where
  "utf8_encode [] = []"
| "utf8_encode [u] = enc_unit u"
| "utf8_encode (u # v # vs) =
     (if is_high u \<and> is_low v then enc_cp (pair_cp u v) @ utf8_encode vs
      else enc_unit u @ utf8_encode (v # vs))"

text \<open>A string without unpaired surrogates.\<close>

fun wf_utf16 :: "jsstring \<Rightarrow> bool" where
  "wf_utf16 [] = True"
| "wf_utf16 [u] = (\<not> is_high u \<and> \<not> is_low u)"
| "wf_utf16 (u # v # vs) =
     (if is_high u then is_low v \<and> wf_utf16 vs
      else \<not> is_low u \<and> wf_utf16 (v # vs))"

text \<open>
  The reader's side of the archive: a strict UTF-8 decoder (no overlong forms, no
  surrogates, nothing above U+10FFFF), \<open>None\<close> on malformed input.
\<close>

definition is_cont :: "byte \<Rightarrow> bool" where
  "is_cont b \<longleftrightarrow> 0x80 \<le> unat b \<and> unat b < 0xC0"

definition units_of_cp :: "nat \<Rightarrow> jsstring" where
  "units_of_cp cp =
     (if cp < 0x10000 then [of_nat cp]
      else [of_nat (0xD800 + (cp - 0x10000) div 0x400), of_nat (0xDC00 + (cp - 0x10000) mod 0x400)])"

fun utf8_decode :: "byte list \<Rightarrow> jsstring option" where
  "utf8_decode [] = Some []"
| "utf8_decode (b # bs) =
     (let n = unat b in
      if n < 0x80 then map_option ((@) (units_of_cp n)) (utf8_decode bs)
      else if n < 0xC0 then None
      else if n < 0xE0 then
        (case bs of
           b1 # r \<Rightarrow>
             (let cp = (n - 0xC0) * 64 + (unat b1 - 0x80) in
              if is_cont b1 \<and> 0x80 \<le> cp then map_option ((@) (units_of_cp cp)) (utf8_decode r)
              else None)
         | _ \<Rightarrow> None)
      else if n < 0xF0 then
        (case bs of
           b1 # b2 # r \<Rightarrow>
             (let cp = (n - 0xE0) * 4096 + (unat b1 - 0x80) * 64 + (unat b2 - 0x80) in
              if is_cont b1 \<and> is_cont b2 \<and> 0x800 \<le> cp \<and> \<not> (0xD800 \<le> cp \<and> cp < 0xE000)
              then map_option ((@) (units_of_cp cp)) (utf8_decode r)
              else None)
         | _ \<Rightarrow> None)
      else if n < 0xF8 then
        (case bs of
           b1 # b2 # b3 # r \<Rightarrow>
             (let cp = (n - 0xF0) * 262144 + (unat b1 - 0x80) * 4096
                       + (unat b2 - 0x80) * 64 + (unat b3 - 0x80) in
              if is_cont b1 \<and> is_cont b2 \<and> is_cont b3 \<and> 0x10000 \<le> cp \<and> cp < 0x110000
              then map_option ((@) (units_of_cp cp)) (utf8_decode r)
              else None)
         | _ \<Rightarrow> None)
      else None)"

subsection \<open>Base64 and hexadecimal text\<close>

definition b64_char :: "nat \<Rightarrow> 16 word" where
  "b64_char i =
     (if i < 26 then of_nat (65 + i)
      else if i < 52 then of_nat (97 + (i - 26))
      else if i < 62 then of_nat (48 + (i - 52))
      else if i = 62 then 43 else 47)"

text \<open>\<open>buf.toString('base64')\<close>: the standard alphabet, padded with \<open>=\<close>.\<close>

fun base64_encode :: "byte list \<Rightarrow> jsstring" where
  "base64_encode [] = []"
| "base64_encode [a] =
     [b64_char (unat a div 4), b64_char (unat a mod 4 * 16), 61, 61]"
| "base64_encode [a, b] =
     [b64_char (unat a div 4), b64_char (unat a mod 4 * 16 + unat b div 16),
      b64_char (unat b mod 16 * 4), 61]"
| "base64_encode (a # b # c # r) =
     [b64_char (unat a div 4), b64_char (unat a mod 4 * 16 + unat b div 16),
      b64_char (unat b mod 16 * 4 + unat c div 64), b64_char (unat c mod 64)]
     @ base64_encode r"



definition hex_digit :: "nat \<Rightarrow> 16 word" where
  "hex_digit i = (if i < 10 then of_nat (48 + i) else of_nat (97 + (i - 10)))"

text \<open>\<open>buf.toString('hex')\<close> and \<open>digest('hex')\<close>: two lower-case digits per byte.\<close>

definition hex_encode :: "byte list \<Rightarrow> jsstring" where
  "hex_encode bs = concat (map (\<lambda>b. [hex_digit (unat b div 16), hex_digit (unat b mod 16)]) bs)"

subsection \<open>SHA-1\<close>

text \<open>
  The digest that \<open>crypto.subtle.digest('SHA-1', _)\<close> and \<open>createHash('sha1')\<close> compute
  (FIPS 180-4): padding to a multiple of 64 bytes, then one compression per block.
\<close>

definition be32 :: "32 word \<Rightarrow> byte list" where
  "be32 w = [ucast (drop_bit 24 w), ucast (drop_bit 16 w), ucast (drop_bit 8 w), ucast w]"

definition be64_len :: "nat \<Rightarrow> byte list" where
  "be64_len n = map (\<lambda>i. of_nat (n div 2 ^ (8 * (7 - i)))) [0..<8]"

definition sha1_pad :: "byte list \<Rightarrow> byte list" where
  "sha1_pad m =
     m @ [0x80] @ replicate ((119 - length m mod 64) mod 64) 0 @ be64_len (8 * length m)"

definition rotl32 :: "nat \<Rightarrow> 32 word \<Rightarrow> 32 word" where
  "rotl32 n w = push_bit n w OR drop_bit (32 - n) w"

definition word_of_bytes :: "byte list \<Rightarrow> 32 word" where
  "word_of_bytes bs = foldl (\<lambda>w b. push_bit 8 w OR ucast b) 0 bs"

definition sha1_schedule :: "byte list \<Rightarrow> 32 word list" where
  "sha1_schedule blk =
     ((\<lambda>ws. ws @ [rotl32 1 (ws ! (length ws - 3) XOR ws ! (length ws - 8)
                               XOR ws ! (length ws - 14) XOR ws ! (length ws - 16))]) ^^ 64)
       (map (\<lambda>i. word_of_bytes (take 4 (drop (4 * i) blk))) [0..<16])"

type_synonym sha1_state = "32 word \<times> 32 word \<times> 32 word \<times> 32 word \<times> 32 word"

definition sha1_f :: "nat \<Rightarrow> 32 word \<Rightarrow> 32 word \<Rightarrow> 32 word \<Rightarrow> 32 word" where
  "sha1_f t b c d =
     (if t < 20 then (b AND c) OR (NOT b AND d)
      else if t < 40 then b XOR c XOR d
      else if t < 60 then (b AND c) OR (b AND d) OR (c AND d)
      else b XOR c XOR d)"

definition sha1_k :: "nat \<Rightarrow> 32 word" where
  "sha1_k t =
     (if t < 20 then 0x5A827999 else if t < 40 then 0x6ED9EBA1
      else if t < 60 then 0x8F1BBCDC else 0xCA62C1D6)"

definition sha1_round :: "32 word list \<Rightarrow> sha1_state \<Rightarrow> nat \<Rightarrow> sha1_state" where
  "sha1_round ws s t =
     (case s of (a, b, c, d, e) \<Rightarrow>
        (rotl32 5 a + sha1_f t b c d + e + sha1_k t + ws ! t, a, rotl32 30 b, c, d))"

definition sha1_block :: "sha1_state \<Rightarrow> byte list \<Rightarrow> sha1_state" where
  "sha1_block h blk =
     (case h of (h0, h1, h2, h3, h4) \<Rightarrow>
        (case foldl (sha1_round (sha1_schedule blk)) h [0..<80] of
           (a, b, c, d, e) \<Rightarrow> (h0 + a, h1 + b, h2 + c, h3 + d, h4 + e)))"

definition sha1_digest :: "byte list \<Rightarrow> byte list" where
  "sha1_digest m =
     (let p = sha1_pad m in
      case foldl (\<lambda>h i. sha1_block h (take 64 (drop (64 * i) p)))
             (0x67452301, 0xEFCDAB89, 0x98BADCFE, 0x10325476, 0xC3D2E1F0)
             [0..<length p div 64] of
        (h0, h1, h2, h3, h4) \<Rightarrow> be32 h0 @ be32 h1 @ be32 h2 @ be32 h3 @ be32 h4)"

section \<open>JavaScript values\<close>

text \<open>
  The values the handler meets: what \<open>JSON.parse\<close> returns, and \<open>undefined\<close> for a
  property that is not there.  An object is the list of its own properties in enumeration
  order.  A number carries its value; the handler only asks whether it is zero.
\<close>

datatype jsval =
    JUndefined
  | JNull
  | JBool bool
  | JNum int
  | JStr jsstring
  | JArr "jsval list"
  | JObj "(jsstring \<times> jsval) list"

datatype jserror = JsError (message: jsstring)

text \<open>What \<open>!v\<close> negates.\<close>

fun truthy :: "jsval \<Rightarrow> bool" where
  "truthy JUndefined = False"
| "truthy JNull = False"
| "truthy (JBool b) = b"
| "truthy (JNum n) = (n \<noteq> 0)"
| "truthy (JStr s) = (s \<noteq> [])"
| "truthy (JArr xs) = True"
| "truthy (JObj ms) = True"

text \<open>The members of a parsed object that \<open>v.k\<close> can see; every other value has none.\<close>

fun own_props :: "jsval \<Rightarrow> (jsstring \<times> jsval) list" where
  "own_props (JObj ms) = ms"
| "own_props v = []"

definition lookup_prop :: "jsval \<Rightarrow> jsstring \<Rightarrow> jsval" where
  "lookup_prop v k = (case map_of (own_props v) k of None \<Rightarrow> JUndefined | Some x \<Rightarrow> x)"

subsection \<open>Numbers and strings as text\<close>

fun digits :: "nat \<Rightarrow> jsstring" where
  "digits n = (if n < 10 then [of_nat (48 + n)] else digits (n div 10) @ [of_nat (48 + n mod 10)])"

declare digits.simps [simp del]

text \<open>\<open>String(n)\<close> for an integer below \<open>10^21\<close> in magnitude, as in a template literal.\<close>

definition Number_toString :: "int \<Rightarrow> jsstring" where
  "Number_toString i = (if i < 0 then 0x2D # digits (nat (- i)) else digits (nat i))"

definition hex4 :: "nat \<Rightarrow> jsstring" where
  "hex4 n = [hex_digit (n div 4096 mod 16), hex_digit (n div 256 mod 16),
             hex_digit (n div 16 mod 16), hex_digit (n mod 16)]"

text \<open>One code unit inside a JSON string literal (\<open>QuoteJSONString\<close>).\<close>

definition quote_unit :: "16 word \<Rightarrow> jsstring" where
  "quote_unit u =
     (let n = unat u in
      if n = 0x08 then [0x5C, 0x62]
      else if n = 0x09 then [0x5C, 0x74]
      else if n = 0x0A then [0x5C, 0x6E]
      else if n = 0x0C then [0x5C, 0x66]
      else if n = 0x0D then [0x5C, 0x72]
      else if n = 0x22 then [0x5C, 0x22]
      else if n = 0x5C then [0x5C, 0x5C]
      else if n < 0x20 \<or> is_high u \<or> is_low u then [0x5C, 0x75] @ hex4 n
      else [u])"

fun quote_units :: "jsstring \<Rightarrow> jsstring" where
  "quote_units [] = []"
| "quote_units [u] = quote_unit u"
| "quote_units (u # v # vs) =
     (if is_high u \<and> is_low v then u # v # quote_units vs
      else quote_unit u @ quote_units (v # vs))"

definition QuoteJSONString :: "jsstring \<Rightarrow> jsstring" where
  "QuoteJSONString s = [0x22] @ quote_units s @ [0x22]"

fun join :: "jsstring \<Rightarrow> jsstring list \<Rightarrow> jsstring" where
  "join sep [] = []"
| "join sep [x] = x"
| "join sep (x # y # ys) = x @ sep @ join sep (y # ys)"

text \<open>
  The brackets around the serialised members of an array or object: \<open>opn\<close> and \<open>cls\<close>
  are the bracket characters, \<open>stepback\<close> the indentation outside, \<open>gap\<close> one level.
\<close>

definition wrap :: "jsstring \<Rightarrow> jsstring \<Rightarrow> 16 word \<Rightarrow> 16 word \<Rightarrow> jsstring list \<Rightarrow> jsstring" where
  "wrap gap stepback opn cls partial =
     (if partial = [] then [opn, cls]
      else if gap = [] then [opn] @ join [0x2C] partial @ [cls]
      else [opn, 0x0A] @ stepback @ gap @ join ([0x2C, 0x0A] @ stepback @ gap) partial
           @ [0x0A] @ stepback @ [cls])"

text \<open>
  \<open>JSON.stringify\<close> below the top level: an \<open>undefined\<close> member of an object is left
  out, an \<open>undefined\<close> element of an array is written \<open>null\<close>.
\<close>

fun stringify :: "jsstring \<Rightarrow> jsstring \<Rightarrow> jsval \<Rightarrow> jsstring"
  and stringify_elements :: "jsstring \<Rightarrow> jsstring \<Rightarrow> jsval list \<Rightarrow> jsstring list"
  and stringify_members :: "jsstring \<Rightarrow> jsstring \<Rightarrow> (jsstring \<times> jsval) list \<Rightarrow> jsstring list"
where
  "stringify gap ind JUndefined = js ''null''"
| "stringify gap ind JNull = js ''null''"
| "stringify gap ind (JBool b) = (if b then js ''true'' else js ''false'')"
| "stringify gap ind (JNum n) = Number_toString n"
| "stringify gap ind (JStr s) = QuoteJSONString s"
| "stringify gap ind (JArr xs) = wrap gap ind 0x5B 0x5D (stringify_elements gap (ind @ gap) xs)"
| "stringify gap ind (JObj ms) = wrap gap ind 0x7B 0x7D (stringify_members gap (ind @ gap) ms)"
| "stringify_elements gap ind [] = []"
| "stringify_elements gap ind (x # xs) = stringify gap ind x # stringify_elements gap ind xs"
| "stringify_members gap ind [] = []"
| "stringify_members gap ind ((k, v) # ms) =
     (if v = JUndefined then stringify_members gap ind ms
      else (QuoteJSONString k @ [0x3A] @ (if gap = [] then [] else [0x20]) @ stringify gap ind v)
           # stringify_members gap ind ms)"

text \<open>\<open>JSON.stringify(v, null, n)\<close>; \<open>JSON.stringify(v)\<close> is \<open>n = 0\<close>.\<close>

definition JSON_stringify :: "nat \<Rightarrow> jsval \<Rightarrow> jsstring" where
  "JSON_stringify n v = stringify (replicate (min 10 n) 0x20) [] v"

subsection \<open>Reading JSON text\<close>

text \<open>
  The reader's side of \<open>package.json\<close>: a JSON parser for objects, arrays, strings,
  integers and the three literals.  It answers \<open>None\<close> on text that is not JSON and on
  numbers with a fraction or an exponent, which \<open>jsval\<close> cannot hold.  A name that
  is repeated in an object keeps its first place and takes its last value, as in
  \<open>JSON.parse\<close>.
\<close>

definition add_member :: "jsstring \<Rightarrow> jsval \<Rightarrow> (jsstring \<times> jsval) list \<Rightarrow> (jsstring \<times> jsval) list" where
  "add_member k x ms =
     (k, (case map_of ms k of None \<Rightarrow> x | Some y \<Rightarrow> y)) # filter (\<lambda>(k', v). k' \<noteq> k) ms"

definition is_ws :: "16 word \<Rightarrow> bool" where
  "is_ws u \<longleftrightarrow> u = 0x20 \<or> u = 0x09 \<or> u = 0x0A \<or> u = 0x0D"

definition is_digit :: "16 word \<Rightarrow> bool" where
  "is_digit u \<longleftrightarrow> 48 \<le> unat u \<and> unat u \<le> 57"

definition hex_val :: "16 word \<Rightarrow> nat option" where
  "hex_val u =
     (let n = unat u in
      if 48 \<le> n \<and> n \<le> 57 then Some (n - 48)
      else if 97 \<le> n \<and> n \<le> 102 then Some (n - 87)
      else if 65 \<le> n \<and> n \<le> 70 then Some (n - 55)
      else None)"

definition unescape :: "16 word \<Rightarrow> 16 word option" where
  "unescape e =
     (if e = 0x22 \<or> e = 0x5C \<or> e = 0x2F then Some e
      else if e = 0x62 then Some 0x08
      else if e = 0x66 then Some 0x0C
      else if e = 0x6E then Some 0x0A
      else if e = 0x72 then Some 0x0D
      else if e = 0x74 then Some 0x09
      else None)"

text \<open>The characters of a string literal after its opening quote, and the rest.\<close>

fun parse_chars :: "jsstring \<Rightarrow> (jsstring \<times> jsstring) option" where
  "parse_chars [] = None"
| "parse_chars (u # r) =
     (if u = 0x22 then Some ([], r)
      else if u = 0x5C then
        (case r of
           [] \<Rightarrow> None
         | e # r1 \<Rightarrow>
             (if e = 0x75 then
                (case r1 of
                   a # b # c # d # r2 \<Rightarrow>
                     (case (hex_val a, hex_val b, hex_val c, hex_val d) of
                        (Some p, Some q, Some s, Some t) \<Rightarrow>
                          map_option (\<lambda>(cs, rest). (of_nat (p * 4096 + q * 256 + s * 16 + t) # cs, rest))
                            (parse_chars r2)
                      | _ \<Rightarrow> None)
                 | _ \<Rightarrow> None)
              else
                (case unescape e of
                   None \<Rightarrow> None
                 | Some c \<Rightarrow> map_option (\<lambda>(cs, rest). (c # cs, rest)) (parse_chars r1))))
      else if unat u < 0x20 then None
      else map_option (\<lambda>(cs, rest). (u # cs, rest)) (parse_chars r))"

fun digits_value :: "nat \<Rightarrow> jsstring \<Rightarrow> nat" where
  "digits_value acc [] = acc"
| "digits_value acc (u # r) = digits_value (acc * 10 + (unat u - 48)) r"

text \<open>An integer literal without its sign: no leading zero, no fraction, no exponent.\<close>

definition parse_nat :: "jsstring \<Rightarrow> (nat \<times> jsstring) option" where
  "parse_nat s =
     (let ds = takeWhile is_digit s; rest = dropWhile is_digit s in
      if ds = [] \<or> (hd ds = 48 \<and> length ds > 1) then None
      else if rest \<noteq> [] \<and> (hd rest = 0x2E \<or> hd rest = 0x65 \<or> hd rest = 0x45) then None
      else Some (digits_value 0 ds, rest))"

fun parse_value :: "nat \<Rightarrow> jsstring \<Rightarrow> (jsval \<times> jsstring) option"
  and parse_elements :: "nat \<Rightarrow> jsstring \<Rightarrow> (jsval list \<times> jsstring) option"
  and parse_members :: "nat \<Rightarrow> jsstring \<Rightarrow> ((jsstring \<times> jsval) list \<times> jsstring) option"
where
  "parse_value 0 s = None"
| "parse_value (Suc n) s =
     (case dropWhile is_ws s of
        [] \<Rightarrow> None
      | u # r \<Rightarrow>
          (if u = 0x22 then map_option (\<lambda>(cs, rest). (JStr cs, rest)) (parse_chars r)
           else if u = 0x5B then
             (case dropWhile is_ws r of
                [] \<Rightarrow> None
              | c # r1 \<Rightarrow>
                  (if c = 0x5D then Some (JArr [], r1)
                   else map_option (\<lambda>(xs, rest). (JArr xs, rest)) (parse_elements n r)))
           else if u = 0x7B then
             (case dropWhile is_ws r of
                [] \<Rightarrow> None
              | c # r1 \<Rightarrow>
                  (if c = 0x7D then Some (JObj [], r1)
                   else map_option (\<lambda>(ms, rest). (JObj ms, rest)) (parse_members n r)))
           else if take 4 (u # r) = js ''null'' then Some (JNull, drop 3 r)
           else if take 4 (u # r) = js ''true'' then Some (JBool True, drop 3 r)
           else if take 5 (u # r) = js ''false'' then Some (JBool False, drop 4 r)
           else if u = 0x2D then map_option (\<lambda>(k, rest). (JNum (- int k), rest)) (parse_nat r)
           else map_option (\<lambda>(k, rest). (JNum (int k), rest)) (parse_nat (u # r))))"
| "parse_elements 0 s = None"
| "parse_elements (Suc n) s =
     (case parse_value n s of
        None \<Rightarrow> None
      | Some (x, r) \<Rightarrow>
          (case dropWhile is_ws r of
             [] \<Rightarrow> None
           | c # r1 \<Rightarrow>
               (if c = 0x2C then map_option (\<lambda>(xs, rest). (x # xs, rest)) (parse_elements n r1)
                else if c = 0x5D then Some ([x], r1)
                else None)))"
| "parse_members 0 s = None"
| "parse_members (Suc n) s =
     (case dropWhile is_ws s of
        [] \<Rightarrow> None
      | q # r \<Rightarrow>
          (if q \<noteq> 0x22 then None
           else
             (case parse_chars r of
                None \<Rightarrow> None
              | Some (k, r1) \<Rightarrow>
                  (case dropWhile is_ws r1 of
                     [] \<Rightarrow> None
                   | c # r2 \<Rightarrow>
                       (if c \<noteq> 0x3A then None
                        else
                          (case parse_value n r2 of
                             None \<Rightarrow> None
                           | Some (x, r3) \<Rightarrow>
                               (case dropWhile is_ws r3 of
                                  [] \<Rightarrow> None
                                | d # r4 \<Rightarrow>
                                    (if d = 0x2C then
                                       map_option (\<lambda>(ms, rest). (add_member k x ms, rest)) (parse_members n r4)
                                     else if d = 0x7D then Some ([(k, x)], r4)
                                     else None))))))))"

text \<open>The whole text is one value; the fuel is more than any nesting it can have.\<close>

definition JSON_parse :: "jsstring \<Rightarrow> jsval option" where
  "JSON_parse s =
     (case parse_value (Suc (length s)) s of
        None \<Rightarrow> None
      | Some (v, rest) \<Rightarrow> if dropWhile is_ws rest = [] then Some v else None)"

section \<open>The publish route (\<open>src/route.ts\<close>)\<close>

subsection \<open>What the route talks to\<close>

record form_part =
  part_field :: jsstring
  part_content :: "byte list"
  part_filename :: jsstring
  part_contentType :: jsstring

datatype http_body = JsonText jsstring | FormData "form_part list"

record http_request =
  req_url :: jsstring
  req_method :: jsstring
  req_headers :: "(jsstring \<times> jsstring) list"
  req_body :: http_body

text \<open>
  A provider's answer: its status, what \<open>res.text()\<close> gives and what \<open>res.json()\<close> gives
  (an exception when the body is not JSON).
\<close>

record http_response =
  res_status :: nat
  res_text :: jsstring
  res_json :: "jserror + jsval"

definition res_ok :: "http_response \<Rightarrow> bool" where
  "res_ok res \<longleftrightarrow> 200 \<le> res_status res \<and> res_status res \<le> 299"

text \<open>
  The libraries and the runtime, which are not part of the repository, as parameters:
  \<^item> \<open>jszip_binary\<close>: the bytes JSZip stores for file data that is not a string, or the
    error with which \<open>generateAsync\<close> rejects;
  \<^item> \<open>jszip_generate\<close>: the archive \<open>generateAsync({type: 'nodebuffer'})\<close> serialises
    from the entries, given in the order they were added;
  \<^item> \<open>buffer_from\<close>: \<open>Buffer.from\<close> on a value that is not a string;
  \<^item> \<open>fetch\<close>: the provider's answer to a request, or a network error;
  \<^item> \<open>date_now\<close>: \<open>Date.now()\<close>;
  \<^item> \<open>form_boundary\<close>: the multipart boundary \<open>form-data\<close> picks;
  \<^item> \<open>has_subtle\<close>: whether \<open>crypto.subtle\<close> exists;
  \<^item> \<open>null_read_error\<close>: the \<open>TypeError\<close> for reading a property of \<open>null\<close>.
\<close>

record platform =
  jszip_binary :: "jsval \<Rightarrow> jserror + byte list"
  jszip_generate :: "(jsstring \<times> byte list) list \<Rightarrow> byte list"
  buffer_from :: "jsval \<Rightarrow> jserror + byte list"
  fetch :: "http_request \<Rightarrow> jserror + http_response"
  date_now :: int
  form_boundary :: jsstring
  has_subtle :: bool
  null_read_error :: "jsstring \<Rightarrow> jserror"

text \<open>\<open>process.env\<close>: a variable is a string or is not set.\<close>

record process_env =
  NETLIFY_TOKEN :: "jsstring option"
  NETLIFY_SITE_ID :: "jsstring option"
  VERCEL_TOKEN :: "jsstring option"
  VERCEL_PROJECT_ID :: "jsstring option"
  VERCEL_TEAM_ID :: "jsstring option"

text \<open>What \<open>!token\<close> negates: set and not empty.\<close>

definition env_truthy :: "jsstring option \<Rightarrow> bool" where
  "env_truthy v = (case v of None \<Rightarrow> False | Some s \<Rightarrow> s \<noteq> [])"

text \<open>An environment variable inside a template literal.\<close>

definition env_text :: "jsstring option \<Rightarrow> jsstring" where
  "env_text v = (case v of None \<Rightarrow> js ''undefined'' | Some s \<Rightarrow> s)"

text \<open>The response the route returns, and what it did on the way.\<close>

record response =
  resp_status :: nat
  resp_body :: jsval

datatype event =
    ZipGenerated "(jsstring \<times> byte list) list"
  | Fetched http_request
  | ConsoleError jserror

text \<open>
  \<open>NextResponse.json(obj, {status})\<close>: the body is \<open>JSON.stringify(obj)\<close>, which drops the
  members that are \<open>undefined\<close>.  Without \<open>status\<close> the response is a 200.
\<close>

definition NextResponse_json :: "(jsstring \<times> jsval) list \<Rightarrow> nat \<Rightarrow> response" where
  "NextResponse_json members st =
     \<lparr>resp_status = st, resp_body = JObj (filter (\<lambda>(k, v). v \<noteq> JUndefined) members)\<rparr>"

text \<open>\<open>v.k\<close>: reading a property of \<open>null\<close> throws.\<close>

definition get_prop :: "platform \<Rightarrow> jsval \<Rightarrow> jsstring \<Rightarrow> jserror + jsval" where
  "get_prop P v k = (if v = JNull then Inl (null_read_error P k) else Inr (lookup_prop v k))"

subsection \<open>\<open>sha1\<close>\<close>

text \<open>Both branches hand the buffer to a SHA-1 and write the digest in hexadecimal.\<close>

definition sha1 :: "platform \<Rightarrow> byte list \<Rightarrow> jsstring" where
  "sha1 P data =
     (if has_subtle P then
        (let hash = sha1_digest data in hex_encode hash)
      else hex_encode (sha1_digest data))"

subsection \<open>\<open>POST\<close>\<close>

definition manifest :: jsval where
  "manifest = JObj [(js ''name'', JStr (js ''webmake-site'')), (js ''version'', JStr (js ''1.0.0''))]"

text \<open>The bytes JSZip stores for the data of \<open>zip.file(name, data)\<close>.\<close>

definition zip_file :: "platform \<Rightarrow> jsval \<Rightarrow> jserror + byte list" where
  "zip_file P v = (case v of JStr s \<Rightarrow> Inr (utf8_encode s) | _ \<Rightarrow> jszip_binary P v)"

text \<open>Lines 24 to 28: the two entries of the archive.\<close>

definition archive_entries :: "platform \<Rightarrow> jsval \<Rightarrow> jserror + (jsstring \<times> byte list) list" where
  "archive_entries P html =
     (case zip_file P html of
        Inl e \<Rightarrow> Inl e
      | Inr bytes \<Rightarrow>
          (case zip_file P (JStr (JSON_stringify 2 manifest)) of
             Inl e \<Rightarrow> Inl e
           | Inr mbytes \<Rightarrow> Inr [(js ''index.html'', bytes), (js ''package.json'', mbytes)]))"

text \<open>Lines 36 to 40 and 70 to 74: the answer when the credentials are not set.\<close>

definition fallback :: "jsstring \<Rightarrow> byte list \<Rightarrow> response" where
  "fallback msg zipped =
     (let base64zip = base64_encode zipped in
      NextResponse_json [(js ''message'', JStr msg), (js ''zipBase64'', JStr base64zip)] 200)"

text \<open>Lines 45 to 57: the request to Netlify.\<close>

definition netlify_request :: "platform \<Rightarrow> jsstring option \<Rightarrow> jsstring option \<Rightarrow> byte list \<Rightarrow> http_request" where
  "netlify_request P token siteId zipped =
     \<lparr>req_url = js ''https://api.netlify.com/api/v1/sites/'' @ env_text siteId @ js ''/deploys'',
      req_method = js ''POST'',
      req_headers =
        [(js ''Authorization'', js ''Bearer '' @ env_text token),
         (js ''content-type'', js ''multipart/form-data; boundary='' @ form_boundary P)],
      req_body =
        FormData [\<lparr>part_field = js ''file'', part_content = zipped,
                    part_filename = js ''site.zip'', part_contentType = js ''application/zip''\<rparr>]\<rparr>"

text \<open>Lines 31 to 64.\<close>

definition netlify :: "platform \<Rightarrow> process_env \<Rightarrow> byte list \<Rightarrow> event list \<times> (jserror + response)" where
  "netlify P E zipped =
     (let token = NETLIFY_TOKEN E; siteId = NETLIFY_SITE_ID E in
      if \<not> env_truthy token \<or> \<not> env_truthy siteId then
        ([], Inr (fallback
           (js ''NETLIFY_TOKEN and NETLIFY_SITE_ID must be set as environment variables to deploy.'')
           zipped))
      else
        (let req = netlify_request P token siteId zipped in
         case fetch P req of
           Inl e \<Rightarrow> ([Fetched req], Inl e)
         | Inr res \<Rightarrow>
             (if \<not> res_ok res then
                (let errText = res_text res in
                 ([Fetched req],
                  Inr (NextResponse_json
                    [(js ''error'', JStr (js ''Netlify deploy failed'')), (js ''details'', JStr errText)]
                    500)))
              else
                (case res_json res of
                   Inl e \<Rightarrow> ([Fetched req], Inl e)
                 | Inr result \<Rightarrow>
                     (case get_prop P result (js ''deploy_url'') of
                        Inl e \<Rightarrow> ([Fetched req], Inl e)
                      | Inr deploy_url \<Rightarrow>
                          (if truthy deploy_url then
                             ([Fetched req], Inr (NextResponse_json [(js ''url'', deploy_url)] 200))
                           else
                             (case get_prop P result (js ''url'') of
                                Inl e \<Rightarrow> ([Fetched req], Inl e)
                              | Inr url \<Rightarrow>
                                  ([Fetched req], Inr (NextResponse_json [(js ''url'', url)] 200)))))))))"

text \<open>Line 78: \<open>Buffer.from(html)\<close>.\<close>

definition Buffer_from :: "platform \<Rightarrow> jsval \<Rightarrow> jserror + byte list" where
  "Buffer_from P v = (case v of JStr s \<Rightarrow> Inr (utf8_encode s) | _ \<Rightarrow> buffer_from P v)"

text \<open>Lines 79 to 98: the deployment Vercel is asked for.\<close>

definition vercel_files :: "platform \<Rightarrow> byte list \<Rightarrow> jsval" where
  "vercel_files P data =
     (let sha = sha1 P data in
      JArr
       [JObj [(js ''file'', JStr (js ''index.html'')),
              (js ''data'', JStr (base64_encode data)),
              (js ''sha'', JStr sha)],
        JObj [(js ''file'', JStr (js ''package.json'')),
              (js ''data'', JStr (base64_encode (utf8_encode (JSON_stringify 0 manifest)))),
              (js ''sha'', JStr (sha1 P (utf8_encode (JSON_stringify 0 manifest))))]])"

definition vercel_payload :: "platform \<Rightarrow> jsstring option \<Rightarrow> jsstring option \<Rightarrow> byte list \<Rightarrow> jsval" where
  "vercel_payload P projectId teamId data =
     JObj
      ([(js ''name'', JStr (js ''webmake-site-'' @ Number_toString (date_now P))),
        (js ''project'', JStr (env_text projectId)),
        (js ''files'', vercel_files P data),
        (js ''target'', JStr (js ''production''))]
       @ (if env_truthy teamId then [(js ''teamId'', JStr (env_text teamId))] else []))"

text \<open>Lines 99 to 106.\<close>

definition vercel_request :: "jsstring option \<Rightarrow> jsval \<Rightarrow> http_request" where
  "vercel_request token payload =
     \<lparr>req_url = js ''https://api.vercel.com/v13/deployments'',
      req_method = js ''POST'',
      req_headers =
        [(js ''Authorization'', js ''Bearer '' @ env_text token),
         (js ''Content-Type'', js ''application/json'')],
      req_body = JsonText (JSON_stringify 0 payload)\<rparr>"

text \<open>Lines 65 to 113.\<close>

definition vercel :: "platform \<Rightarrow> process_env \<Rightarrow> jsval \<Rightarrow> byte list \<Rightarrow> event list \<times> (jserror + response)" where
  "vercel P E html zipped =
     (let token = VERCEL_TOKEN E; projectId = VERCEL_PROJECT_ID E; teamId = VERCEL_TEAM_ID E in
      if \<not> env_truthy token \<or> \<not> env_truthy projectId then
        ([], Inr (fallback
           (js ''VERCEL_TOKEN and VERCEL_PROJECT_ID must be set as environment variables to deploy.'')
           zipped))
      else
        (case Buffer_from P html of
           Inl e \<Rightarrow> ([], Inl e)
         | Inr data \<Rightarrow>
             (let req = vercel_request token (vercel_payload P projectId teamId data) in
              case fetch P req of
                Inl e \<Rightarrow> ([Fetched req], Inl e)
              | Inr res \<Rightarrow>
                  (if \<not> res_ok res then
                     (let errText = res_text res in
                      ([Fetched req],
                       Inr (NextResponse_json
                         [(js ''error'', JStr (js ''Vercel deploy failed'')), (js ''details'', JStr errText)]
                         500)))
                   else
                     (case res_json res of
                        Inl e \<Rightarrow> ([Fetched req], Inl e)
                      | Inr result \<Rightarrow>
                          (case get_prop P result (js ''url'') of
                             Inl e \<Rightarrow> ([Fetched req], Inl e)
                           | Inr url \<Rightarrow>
                               (if truthy url then
                                  ([Fetched req], Inr (NextResponse_json [(js ''url'', url)] 200))
                                else
                                  (case get_prop P result (js ''inspectorUrl'') of
                                     Inl e \<Rightarrow> ([Fetched req], Inl e)
                                   | Inr inspectorUrl \<Rightarrow>
                                       ([Fetched req],
                                        Inr (NextResponse_json [(js ''url'', inspectorUrl)] 200))))))))))"

text \<open>
  The body of the \<open>try\<close>.  Its argument is what \<open>request.json()\<close> gave: the parsed body,
  or the exception for a body that is not JSON.
\<close>

definition POST_try :: "platform \<Rightarrow> process_env \<Rightarrow> jserror + jsval \<Rightarrow> event list \<times> (jserror + response)" where
  "POST_try P E parsed =
     (case parsed of
        Inl e \<Rightarrow> ([], Inl e)
      | Inr json \<Rightarrow>
          (case get_prop P json (js ''html'') of
             Inl e \<Rightarrow> ([], Inl e)
           | Inr html \<Rightarrow>
               (case get_prop P json (js ''provider'') of
                  Inl e \<Rightarrow> ([], Inl e)
                | Inr provider \<Rightarrow>
                    (if \<not> truthy html \<or> \<not> truthy provider then
                       ([], Inr (NextResponse_json
                                   [(js ''error'', JStr (js ''Missing html or provider''))] 400))
                     else
                       (case archive_entries P html of
                          Inl e \<Rightarrow> ([], Inl e)
                        | Inr entries \<Rightarrow>
                            (let zipped = jszip_generate P entries;
                                 built = [ZipGenerated entries] in
                             if provider = JStr (js ''netlify'') then
                               (case netlify P E zipped of (evs, r) \<Rightarrow> (built @ evs, r))
                             else if provider = JStr (js ''vercel'') then
                               (case vercel P E html zipped of (evs, r) \<Rightarrow> (built @ evs, r))
                             else
                               (built,
                                Inr (NextResponse_json
                                       [(js ''error'', JStr (js ''Unknown provider''))] 400))))))))"

text \<open>Lines 16 to 119: the \<open>catch\<close> turns every exception into a 500.\<close>

definition POST :: "platform \<Rightarrow> process_env \<Rightarrow> jserror + jsval \<Rightarrow> event list \<times> response" where
  "POST P E parsed =
     (case POST_try P E parsed of
        (evs, Inr r) \<Rightarrow> (evs, r)
      | (evs, Inl err) \<Rightarrow>
          (evs @ [ConsoleError err],
           NextResponse_json
             [(js ''error'', JStr (js ''Server error'')), (js ''details'', JStr (message err))] 500))"

section \<open>The site renderer (\<open>src/page.tsx\<close>)\<close>

record GenResult =
  headline :: jsstring
  subheadline :: jsstring
  about :: jsstring
  services :: "jsstring list"
  cta :: jsstring
  keywords_list :: "jsstring list"
  color :: jsstring
  imageUrl :: jsstring

text \<open>A line of the template with its line feed.\<close>

definition line :: "string \<Rightarrow> jsstring" where
  "line s = js s @ [0x0A]"

text \<open>
  The template literal of lines 84 to 125 as the list of its pieces in order: the text
  between two substitutions, cut at the line feeds, and the substitutions themselves.
  \<open>year\<close> is what \<open>new Date().getFullYear()\<close> reads from the clock.
\<close>

definition buildHtml_parts :: "int \<Rightarrow> GenResult \<Rightarrow> jsstring list" where
  \<open>buildHtml_parts year data =
       [line ''<!doctype html>'',
        line ''<html lang="en">'',
        line ''<head>'',
        line ''  <meta charset="utf-8" />'',
        line ''  <meta name="viewport" content="width=device-width, initial-scale=1" />'',
        js ''  <title>'',
        headline data,
        line ''</title>'',
        line ''  <style>'',
        line ''    body { font-family: system-ui, -apple-system, Segoe UI, Roboto, Inter, sans-serif; margin:0; color:#111; }'',
        js ''    .hero{ background: linear-gradient(135deg, '',
        color data,
        line '', #111827); color:white; padding:64px 20px; }'',
        line ''    .container{ max-width: 960px; margin:0 auto; padding:0 16px; }'',
        line ''    .card{ background:#fff; border-radius:16px; box-shadow:0 8px 30px rgba(0,0,0,.08); padding:24px; margin:16px 0; }'',
        js ''    .btn{ background:'',
        color data,
        line ''; color:white; border-radius:10px; padding:12px 18px; text-decoration:none; display:inline-block; }'',
        line ''    .services li { margin: 6px 0; }'',
        line ''    .hero-img { width:100%; border-radius:16px; margin-top:16px; }'',
        line ''  </style>'',
        line ''</head>'',
        line ''<body>'',
        line ''  <header class="hero">'',
        line ''    <div class="container">'',
        js ''      <h1>'',
        headline data,
        line ''</h1>'',
        js ''      <p>'',
        subheadline data,
        line ''</p>'',
        js ''      <a href="https://wa.me/9580378761" class="btn">'',
        (if cta data \<noteq> [] then cta data else js ''Contact Us''),
        line ''</a>'',
        js ''      <img class="hero-img" src="'',
        imageUrl data,
        line ''" alt="hero" />'',
        line ''    </div>'',
        line ''  </header>'',
        line ''  <main class="container">'',
        line ''    <section class="card">'',
        line ''      <h2>About Us</h2>'',
        js ''      <p>'',
        about data,
        line ''</p>'',
        line ''    </section>'',
        line ''    <section class="card">'',
        line ''      <h2>Our Services</h2>'',
        line ''      <ul class="services">'',
        js ''        '',
        concat (map (\<lambda>s. js ''<li>'' @ [0x2022, 0x20] @ s @ js ''</li>'') (services data)),
        [0x0A],
        line ''      </ul>'',
        line ''    </section>'',
        line ''  </main>'',
        line ''  <footer class="container" style="padding:32px 16px;opacity:.7;">'',
        js ''    '',
        [0xA9],
        js '' '',
        Number_toString year,
        js '' '',
        headline data,
        [0x0A],
        line ''  </footer>'',
        line ''</body>'',
        js ''</html>'']\<close>

text \<open>\<open>buildHtml\<close>: the string the template literal evaluates to.\<close>

definition buildHtml :: "int \<Rightarrow> GenResult \<Rightarrow> jsstring" where
  "buildHtml year data = concat (buildHtml_parts year data)"

section \<open>Reading a response, and test doubles\<close>

text \<open>The three shapes of an answer are told apart by the member they carry.\<close>

definition has_member :: "jsval \<Rightarrow> jsstring \<Rightarrow> bool" where
  "has_member v k \<longleftrightarrow> lookup_prop v k \<noteq> JUndefined"

text \<open>The entry of a deployment's \<open>files\<close> with the given \<open>file\<close> name.\<close>

definition payload_file :: "jsval \<Rightarrow> jsstring \<Rightarrow> jsval option" where
  "payload_file payload name =
     (case lookup_prop payload (js ''files'') of
        JArr fs \<Rightarrow> find (\<lambda>f. lookup_prop f (js ''file'') = JStr name) fs
      | _ \<Rightarrow> None)"

text \<open>The request the page sends (\<open>src/page.tsx\<close>, line 138).\<close>

definition publish_request :: "jsstring \<Rightarrow> jsstring \<Rightarrow> jsval" where
  "publish_request provider html = JObj [(js ''provider'', JStr provider), (js ''html'', JStr html)]"



text \<open>
  A stand-in container for the examples, with its reader.  A field is written byte by
  byte, each byte after a 1, and closed by a 0; an entry is a 1, the name (two bytes for a
  code unit) and the content, each as a field; the archive is closed by a 0.
\<close>

definition unit_bytes :: "16 word \<Rightarrow> byte list" where
  "unit_bytes u = [of_nat (unat u div 256), of_nat (unat u mod 256)]"


definition field :: "byte list \<Rightarrow> byte list" where
  "field bs = concat (map (\<lambda>b. [1, b]) bs) @ [0]"


definition store_entry :: "jsstring \<times> byte list \<Rightarrow> byte list" where
  "store_entry e = [1] @ field (concat (map unit_bytes (fst e))) @ field (snd e)"

definition store_archive :: "(jsstring \<times> byte list) list \<Rightarrow> byte list" where
  "store_archive es = concat (map store_entry es) @ [0]"




text \<open>
  A platform for running the route on examples: every request gets the answer \<open>res\<close>,
  and the archive is the stand-in container.
\<close>

definition mock_platform :: "http_response \<Rightarrow> platform" where
  "mock_platform res =
     \<lparr>jszip_binary = (\<lambda>v. Inl (JsError (js ''unsupported data''))),
      jszip_generate = store_archive,
      buffer_from = (\<lambda>v. Inl (JsError (js ''unsupported data''))),
      fetch = (\<lambda>req. Inr res),
      date_now = 1700000000000,
      form_boundary = js ''boundary'',
      has_subtle = True,
      null_read_error = (\<lambda>k. JsError (js ''Cannot read properties of null''))\<rparr>"

definition quota_exceeded :: http_response where
  "quota_exceeded =
     \<lparr>res_status = 500, res_text = js ''quota exceeded'',
      res_json = Inl (JsError (js ''Unexpected token''))\<rparr>"

definition deployed :: http_response where
  \<open>deployed =
     \<lparr>res_status = 200, res_text = js ''{"url":"https://example.vercel.app"}'',
      res_json = Inr (JObj [(js ''url'', JStr (js ''https://example.vercel.app''))])\<rparr>\<close>

definition no_credentials :: process_env where
  "no_credentials =
     \<lparr>NETLIFY_TOKEN = None, NETLIFY_SITE_ID = None, VERCEL_TOKEN = None,
      VERCEL_PROJECT_ID = None, VERCEL_TEAM_ID = None\<rparr>"

definition credentials :: process_env where
  "credentials =
     \<lparr>NETLIFY_TOKEN = Some (js ''nt''), NETLIFY_SITE_ID = Some (js ''site''),
      VERCEL_TOKEN = Some (js ''vt''), VERCEL_PROJECT_ID = Some (js ''proj''),
      VERCEL_TEAM_ID = None\<rparr>"

text \<open>A site for the examples.\<close>

definition sample_site :: GenResult where
  "sample_site =
     \<lparr>headline = js ''Peacock Salon'', subheadline = js ''Premium hair and beauty'',
      about = js ''A salon in Indore'', services = [js ''Haircuts'', js ''Styling''], cta = [],
      keywords_list = [js ''salon''], color = js ''#111'', imageUrl = js ''https://example.com/hero.jpg''\<rparr>"

text \<open>The archive the route builds when \<open>html\<close> is the string \<open>h\<close>.\<close>

abbreviation html_entries :: "jsstring \<Rightarrow> (jsstring \<times> byte list) list" where
  "html_entries h \<equiv>
     [(js ''index.html'', utf8_encode h), (js ''package.json'', utf8_encode (JSON_stringify 2 manifest))]"

text \<open>
  The answers the interface allows: \<open>{url}\<close> on success, \<open>{message, zipBase64}\<close> when
  the route falls back, \<open>{error}\<close> with a 400 and \<open>{error, details}\<close> with a 500.
\<close>

inductive answer :: "response \<Rightarrow> bool" where
  success: "answer (NextResponse_json [(js ''url'', u)] 200)"
| fallen_back: "answer (fallback m z)"
| rejected:
    "m = js ''Missing html or provider'' \<or> m = js ''Unknown provider'' \<Longrightarrow>
     answer (NextResponse_json [(js ''error'', JStr m)] 400)"
| failed:
    "m = js ''Netlify deploy failed'' \<or> m = js ''Vercel deploy failed'' \<or> m = js ''Server error'' \<Longrightarrow>
     answer (NextResponse_json [(js ''error'', JStr m), (js ''details'', JStr d)] 500)"

section \<open>Properties of the encodings\<close>

subsection \<open>Base64 decodes what it encoded\<close>


lemma unat_unit_lt: "unat (u :: 16 word) < 65536"
  using unsigned_less [of u, where ?'a = nat] by simp


lemma unat_of_nat_byte: "n < 256 \<Longrightarrow> unat (of_nat n :: byte) = n"
  by (simp add: unat_of_nat)





lemma div_mod_pack:
  fixes x y k :: nat
  assumes "y < k"
  shows "(x * k + y) div k = x" and "(x * k + y) mod k = y"
  using assms by simp_all




subsection \<open>UTF-8 decodes what it encoded, for strings without unpaired surrogates\<close>

lemma decode_1:
  assumes "unat b0 = cp" "cp < 0x80"
  shows "utf8_decode (b0 # bs) = map_option ((@) (units_of_cp cp)) (utf8_decode bs)"
  using assms by simp

lemma decode_2:
  assumes "unat b0 = 0xC0 + h" "unat b1 = 0x80 + l" "h < 32" "l < 64" "0x80 \<le> h * 64 + l"
  shows "utf8_decode (b0 # b1 # bs) = map_option ((@) (units_of_cp (h * 64 + l))) (utf8_decode bs)"
  using assms by (simp add: is_cont_def)

lemma decode_3:
  assumes "unat b0 = 0xE0 + h" "unat b1 = 0x80 + m" "unat b2 = 0x80 + l"
    "h < 16" "m < 64" "l < 64"
    "0x800 \<le> h * 4096 + m * 64 + l" "\<not> (0xD800 \<le> h * 4096 + m * 64 + l \<and> h * 4096 + m * 64 + l < 0xE000)"
  shows "utf8_decode (b0 # b1 # b2 # bs) =
           map_option ((@) (units_of_cp (h * 4096 + m * 64 + l))) (utf8_decode bs)"
  using assms by (simp add: is_cont_def)

lemma decode_4:
  assumes "unat b0 = 0xF0 + h" "unat b1 = 0x80 + k" "unat b2 = 0x80 + m" "unat b3 = 0x80 + l"
    "h < 8" "k < 64" "m < 64" "l < 64"
    "0x10000 \<le> h * 262144 + k * 4096 + m * 64 + l" "h * 262144 + k * 4096 + m * 64 + l < 0x110000"
  shows "utf8_decode (b0 # b1 # b2 # b3 # bs) =
           map_option ((@) (units_of_cp (h * 262144 + k * 4096 + m * 64 + l))) (utf8_decode bs)"
  using assms by (simp add: is_cont_def)

lemma split_64: "(cp::nat) div 64 * 64 + cp mod 64 = cp"
  by simp

lemma split_4096: "(cp::nat) div 4096 * 4096 + cp div 64 mod 64 * 64 + cp mod 64 = cp"
proof -
  define q where "q = cp div 64"
  have "cp div 4096 = q div 64" by (simp add: q_def div_mult2_eq)
  moreover have "q div 64 * 4096 + q mod 64 * 64 = q * 64"
  proof -
    have "(q div 64 * 64 + q mod 64) * 64 = q * 64" by (simp only: div_mult_mod_eq)
    then show ?thesis by (simp only: add_mult_distrib mult.assoc)
  qed
  moreover have "q * 64 + cp mod 64 = cp" by (simp add: q_def)
  ultimately show ?thesis by (simp add: q_def [symmetric])
qed

lemma split_262144:
  "(cp::nat) div 262144 * 262144 + cp div 4096 mod 64 * 4096 + cp div 64 mod 64 * 64 + cp mod 64 = cp"
proof -
  define q where "q = cp div 4096"
  have "cp div 262144 = q div 64" by (simp add: q_def div_mult2_eq)
  moreover have "q div 64 * 262144 + q mod 64 * 4096 = q * 4096"
  proof -
    have "(q div 64 * 64 + q mod 64) * 4096 = q * 4096" by (simp only: div_mult_mod_eq)
    then show ?thesis by (simp only: add_mult_distrib mult.assoc)
  qed
  moreover have "q * 4096 + cp div 64 mod 64 * 64 + cp mod 64 = cp"
    using split_4096 [of cp] by (simp add: q_def)
  ultimately show ?thesis by (simp add: q_def [symmetric])
qed

lemma decode_enc_cp:
  assumes "cp < 0x110000" "\<not> (0xD800 \<le> cp \<and> cp < 0xE000)"
  shows "utf8_decode (enc_cp cp @ bs) = map_option ((@) (units_of_cp cp)) (utf8_decode bs)"
proof -
  consider "cp < 0x80" | "0x80 \<le> cp" "cp < 0x800" | "0x800 \<le> cp" "cp < 0x10000" | "0x10000 \<le> cp"
    by linarith
  then show ?thesis
  proof cases
    case 1
    then have "unat (of_nat cp :: byte) = cp" by (simp add: unat_of_nat_byte)
    from decode_1 [OF this 1] show ?thesis using 1 by (simp add: enc_cp_def)
  next
    case 2
    have h: "cp div 64 < 32" using 2 by (simp add: less_mult_imp_div_less)
    have b0: "unat (of_nat (0xC0 + cp div 64) :: byte) = 0xC0 + cp div 64"
      using h by (intro unat_of_nat_byte) simp
    have b1: "unat (of_nat (0x80 + cp mod 64) :: byte) = 0x80 + cp mod 64"
      by (intro unat_of_nat_byte) simp
    have "0x80 \<le> cp div 64 * 64 + cp mod 64" unfolding split_64 using 2 by simp
    from decode_2 [OF b0 b1 h _ this] show ?thesis
      using 2 by (simp add: enc_cp_def del: of_nat_add)
  next
    case 3
    have h: "cp div 4096 < 16" using 3 by (simp add: less_mult_imp_div_less)
    have b0: "unat (of_nat (0xE0 + cp div 4096) :: byte) = 0xE0 + cp div 4096"
      using h by (intro unat_of_nat_byte) simp
    have b1: "unat (of_nat (0x80 + cp div 64 mod 64) :: byte) = 0x80 + cp div 64 mod 64"
      by (intro unat_of_nat_byte) simp
    have b2: "unat (of_nat (0x80 + cp mod 64) :: byte) = 0x80 + cp mod 64"
      by (intro unat_of_nat_byte) simp
    have lo: "0x800 \<le> cp div 4096 * 4096 + cp div 64 mod 64 * 64 + cp mod 64"
      unfolding split_4096 using 3 by simp
    have ns: "\<not> (0xD800 \<le> cp div 4096 * 4096 + cp div 64 mod 64 * 64 + cp mod 64
                \<and> cp div 4096 * 4096 + cp div 64 mod 64 * 64 + cp mod 64 < 0xE000)"
      unfolding split_4096 using assms(2) by simp
    from decode_3 [OF b0 b1 b2 h _ _ lo ns] show ?thesis
      using 3 by (simp add: enc_cp_def split_4096 del: of_nat_add)
  next
    case 4
    have h: "cp div 262144 < 8" using assms(1) by (simp add: less_mult_imp_div_less)
    have b0: "unat (of_nat (0xF0 + cp div 262144) :: byte) = 0xF0 + cp div 262144"
      using h by (intro unat_of_nat_byte) simp
    have b1: "unat (of_nat (0x80 + cp div 4096 mod 64) :: byte) = 0x80 + cp div 4096 mod 64"
      by (intro unat_of_nat_byte) simp
    have b2: "unat (of_nat (0x80 + cp div 64 mod 64) :: byte) = 0x80 + cp div 64 mod 64"
      by (intro unat_of_nat_byte) simp
    have b3: "unat (of_nat (0x80 + cp mod 64) :: byte) = 0x80 + cp mod 64"
      by (intro unat_of_nat_byte) simp
    have lo: "0x10000 \<le> cp div 262144 * 262144 + cp div 4096 mod 64 * 4096 + cp div 64 mod 64 * 64 + cp mod 64"
      unfolding split_262144 using 4 by simp
    have hi: "cp div 262144 * 262144 + cp div 4096 mod 64 * 4096 + cp div 64 mod 64 * 64 + cp mod 64 < 0x110000"
      unfolding split_262144 using assms(1) by simp
    from decode_4 [OF b0 b1 b2 b3 h _ _ _ lo hi] show ?thesis
      using 4 by (simp add: enc_cp_def split_262144 del: of_nat_add)
  qed
qed

lemma units_of_unit:
  assumes "\<not> is_high u" "\<not> is_low u"
  shows "units_of_cp (unat u) = [u]"
  using unat_unit_lt [of u] by (simp add: units_of_cp_def)

lemma units_of_pair:
  assumes "is_high u" "is_low v"
  shows "units_of_cp (pair_cp u v) = [u, v]"
proof -
  obtain a where a: "unat u = 0xD800 + a" "a < 0x400"
    using assms(1) by (auto simp: is_high_def intro: that [of "unat u - 0xD800"])
  obtain b where b: "unat v = 0xDC00 + b" "b < 0x400"
    using assms(2) by (auto simp: is_low_def intro: that [of "unat v - 0xDC00"])
  have cp: "pair_cp u v = 0x10000 + (a * 0x400 + b)"
    by (simp add: pair_cp_def a b)
  have "(of_nat (0xD800 + a) :: 16 word) = u" "(of_nat (0xDC00 + b) :: 16 word) = v"
    using a(1) b(1) by (metis of_nat_unat ucast_id)+
  then show ?thesis
    using b(2) by (simp add: units_of_cp_def cp div_mod_pack del: of_nat_add)
qed

lemma pair_cp_range:
  assumes "is_high u" "is_low v"
  shows "pair_cp u v < 0x110000" "\<not> (0xD800 \<le> pair_cp u v \<and> pair_cp u v < 0xE000)"
  using assms by (auto simp: pair_cp_def is_high_def is_low_def)

lemma unit_range:
  assumes "\<not> is_high u" "\<not> is_low u"
  shows "unat u < 0x110000" "\<not> (0xD800 \<le> unat u \<and> unat u < 0xE000)"
  using assms unat_unit_lt [of u] by (auto simp: is_high_def is_low_def)

lemma utf8_roundtrip: "wf_utf16 s \<Longrightarrow> utf8_decode (utf8_encode s) = Some s"
proof (induction s rule: wf_utf16.induct)
  case 1
  show ?case by simp
next
  case (2 u)
  then have u: "\<not> is_high u" "\<not> is_low u" by simp_all
  from decode_enc_cp [OF unit_range [OF u], of "[]"] show ?case
    using u by (simp add: enc_unit_def units_of_unit)
next
  case (3 u v vs)
  show ?case
  proof (cases "is_high u")
    case True
    with "3.prems" have v: "is_low v" and wf: "wf_utf16 vs" by simp_all
    from decode_enc_cp [OF pair_cp_range [OF True v], of "utf8_encode vs"] show ?thesis
      using True v "3.IH"(1) [OF True wf] by (simp add: units_of_pair)
  next
    case False
    with "3.prems" have u: "\<not> is_low u" and wf: "wf_utf16 (v # vs)" by simp_all
    from decode_enc_cp [OF unit_range [OF False u], of "utf8_encode (v # vs)"] show ?thesis
      using False u "3.IH"(2) [OF False wf] by (simp add: enc_unit_def units_of_unit)
  qed
qed

subsection \<open>The stand-in container is read back\<close>









section \<open>Properties of the route\<close>

subsection \<open>The manifest and the shape of the answers\<close>


lemma replicate_two: "replicate 2 x = [x, x]"
  by (simp add: numeral_2_eq_2)

lemma manifest_pretty:
  \<open>JSON_stringify 2 manifest =
     line ''{'' @ line ''  "name": "webmake-site",'' @ line ''  "version": "1.0.0"'' @ js ''}''\<close>
  by (simp add: JSON_stringify_def manifest_def wrap_def QuoteJSONString_def quote_unit_def
      is_high_def is_low_def js_def line_def replicate_two)

lemma manifest_compact:
  \<open>JSON_stringify 0 manifest = js ''{"name":"webmake-site","version":"1.0.0"}''\<close>
  by (simp add: JSON_stringify_def manifest_def wrap_def QuoteJSONString_def quote_unit_def
      is_high_def is_low_def js_def)

lemma manifest_texts_differ: "JSON_stringify 0 manifest \<noteq> JSON_stringify 2 manifest"
  by (simp add: manifest_pretty manifest_compact js_def line_def)

lemma wf_manifest_pretty: "wf_utf16 (JSON_stringify 2 manifest)"
  by (simp add: manifest_pretty js_def line_def is_high_def is_low_def)

lemma wf_manifest_compact: "wf_utf16 (JSON_stringify 0 manifest)"
  by (simp add: manifest_compact js_def line_def is_high_def is_low_def)

lemma parse_manifest_pretty: "JSON_parse (JSON_stringify 2 manifest) = Some manifest"
  by (simp only: manifest_pretty) (simp add: JSON_parse_def add_member_def js_def line_def is_ws_def manifest_def)

lemma parse_manifest_compact: "JSON_parse (JSON_stringify 0 manifest) = Some manifest"
  by (simp only: manifest_compact) (simp add: JSON_parse_def add_member_def js_def line_def is_ws_def manifest_def)


lemma lookup_prop_string_not_null: "lookup_prop json k = JStr h \<Longrightarrow> json \<noteq> JNull"
  by (auto simp: lookup_prop_def)

lemma archive_entries_string: "archive_entries P (JStr h) = Inr (html_entries h)"
  by (simp add: archive_entries_def zip_file_def)

lemma POST_try_string:
  assumes "json \<noteq> JNull" "lookup_prop json (js ''html'') = JStr h" "h \<noteq> []"
    and "truthy (lookup_prop json (js ''provider''))"
  shows "POST_try P E (Inr json) =
     (if lookup_prop json (js ''provider'') = JStr (js ''netlify'') then
        (case netlify P E (jszip_generate P (html_entries h)) of
           (evs, r) \<Rightarrow> (ZipGenerated (html_entries h) # evs, r))
      else if lookup_prop json (js ''provider'') = JStr (js ''vercel'') then
        (case vercel P E (JStr h) (jszip_generate P (html_entries h)) of
           (evs, r) \<Rightarrow> (ZipGenerated (html_entries h) # evs, r))
      else
        ([ZipGenerated (html_entries h)],
         Inr (NextResponse_json [(js ''error'', JStr (js ''Unknown provider''))] 400)))"
  using assms by (simp add: POST_try_def get_prop_def archive_entries_string Let_def)

lemma netlify_answers: "netlify P E z = (evs, Inr r) \<Longrightarrow> answer r"
  by (auto simp: netlify_def Let_def split: sum.splits if_splits intro: answer.intros)

lemma vercel_answers: "vercel P E html z = (evs, Inr r) \<Longrightarrow> answer r"
  by (auto simp: vercel_def Let_def split: sum.splits if_splits intro: answer.intros)

lemma POST_try_answers: "POST_try P E parsed = (evs, Inr r) \<Longrightarrow> answer r"
  by (auto simp: POST_try_def Let_def split: sum.splits if_splits prod.splits
      intro: answer.intros netlify_answers vercel_answers)

lemma POST_answers: "answer (snd (POST P E parsed))"
proof (cases "POST_try P E parsed")
  case (Pair evs res)
  then show ?thesis
    by (cases res) (auto simp: POST_def intro: answer.intros POST_try_answers)
qed


lemma answer_members:
  assumes "answer r"
  shows "(has_member (resp_body r) (js ''error'') \<longrightarrow>
            (resp_status r = 400 \<and> \<not> has_member (resp_body r) (js ''details'')
               \<and> (lookup_prop (resp_body r) (js ''error'') = JStr (js ''Missing html or provider'')
                  \<or> lookup_prop (resp_body r) (js ''error'') = JStr (js ''Unknown provider'')))
          \<or> (resp_status r = 500 \<and> (\<exists>d. lookup_prop (resp_body r) (js ''details'') = JStr d)
               \<and> (lookup_prop (resp_body r) (js ''error'') = JStr (js ''Netlify deploy failed'')
                  \<or> lookup_prop (resp_body r) (js ''error'') = JStr (js ''Vercel deploy failed'')
                  \<or> lookup_prop (resp_body r) (js ''error'') = JStr (js ''Server error''))))"
    and "\<not> has_member (resp_body r) (js ''error'') \<longrightarrow> resp_status r = 200"
    and "has_member (resp_body r) (js ''zipBase64'') \<longrightarrow> resp_status r = 200"
    and "has_member (resp_body r) (js ''url'') \<longrightarrow> resp_status r = 200"
  using assms
  by (induction rule: answer.induct;
      simp add: NextResponse_json_def fallback_def has_member_def lookup_prop_def js_def)+

subsection \<open>The route on examples\<close>

lemmas example_defs =
  mock_platform_def credentials_def no_credentials_def publish_request_def deployed_def
  quota_exceeded_def

lemmas route_defs =
  POST_def POST_try_def get_prop_def archive_entries_def zip_file_def netlify_def vercel_def
  fallback_def Buffer_from_def NextResponse_json_def res_ok_def env_truthy_def lookup_prop_def

lemma example_netlify_quota:
  "snd (POST (mock_platform quota_exceeded) credentials
          (Inr (publish_request (js ''netlify'') (js ''<p>x</p>'')))) =
     \<lparr>resp_status = 500,
      resp_body = JObj [(js ''error'', JStr (js ''Netlify deploy failed'')),
                        (js ''details'', JStr (js ''quota exceeded''))]\<rparr>"
  by (simp add: route_defs example_defs js_def)

lemma example_vercel_quota:
  "snd (POST (mock_platform quota_exceeded) credentials
          (Inr (publish_request (js ''vercel'') (js ''<p>x</p>'')))) =
     \<lparr>resp_status = 500,
      resp_body = JObj [(js ''error'', JStr (js ''Vercel deploy failed'')),
                        (js ''details'', JStr (js ''quota exceeded''))]\<rparr>"
  by (simp add: route_defs example_defs js_def)

lemma example_vercel_deployed:
  "snd (POST (mock_platform deployed) credentials
          (Inr (publish_request (js ''vercel'') (js ''<p>x</p>'')))) =
     \<lparr>resp_status = 200,
      resp_body = JObj [(js ''url'', JStr (js ''https://example.vercel.app''))]\<rparr>"
  by (simp add: route_defs example_defs js_def)

lemma example_netlify_fallback:
  "snd (POST (mock_platform deployed) no_credentials
          (Inr (publish_request (js ''netlify'') (js ''<p>x</p>'')))) =
     \<lparr>resp_status = 200,
      resp_body =
        JObj [(js ''message'',
               JStr (js ''NETLIFY_TOKEN and NETLIFY_SITE_ID must be set as environment variables to deploy.'')),
              (js ''zipBase64'',
               JStr (base64_encode
                      (jszip_generate (mock_platform deployed) (html_entries (js ''<p>x</p>'')))))]\<rparr>"
  by (simp add: route_defs example_defs js_def)

subsection \<open>The two provider paths\<close>

lemma sha1_hex: "sha1 P data = hex_encode (sha1_digest data)"
  by (simp add: sha1_def)

lemma netlify_not_ok:
  assumes "env_truthy (NETLIFY_TOKEN E)" "env_truthy (NETLIFY_SITE_ID E)"
    and "fetch P (netlify_request P (NETLIFY_TOKEN E) (NETLIFY_SITE_ID E) z) = Inr res"
    and "\<not> res_ok res"
  shows "netlify P E z =
     ([Fetched (netlify_request P (NETLIFY_TOKEN E) (NETLIFY_SITE_ID E) z)],
      Inr \<lparr>resp_status = 500,
           resp_body = JObj [(js ''error'', JStr (js ''Netlify deploy failed'')),
                             (js ''details'', JStr (res_text res))]\<rparr>)"
  using assms by (simp add: netlify_def NextResponse_json_def)

lemma vercel_not_ok:
  assumes "env_truthy (VERCEL_TOKEN E)" "env_truthy (VERCEL_PROJECT_ID E)"
    and "fetch P (vercel_request (VERCEL_TOKEN E)
           (vercel_payload P (VERCEL_PROJECT_ID E) (VERCEL_TEAM_ID E) (utf8_encode h))) = Inr res"
    and "\<not> res_ok res"
  shows "vercel P E (JStr h) z =
     ([Fetched (vercel_request (VERCEL_TOKEN E)
           (vercel_payload P (VERCEL_PROJECT_ID E) (VERCEL_TEAM_ID E) (utf8_encode h)))],
      Inr \<lparr>resp_status = 500,
           resp_body = JObj [(js ''error'', JStr (js ''Vercel deploy failed'')),
                             (js ''details'', JStr (res_text res))]\<rparr>)"
  using assms by (simp add: vercel_def Buffer_from_def NextResponse_json_def)

lemma netlify_neq_vercel: "js ''netlify'' \<noteq> js ''vercel''"
  by (simp add: js_def)

lemma example_request:
  "publish_request p (js ''<p>x</p>'') \<noteq> JNull"
  "lookup_prop (publish_request p (js ''<p>x</p>'')) (js ''html'') = JStr (js ''<p>x</p>'')"
  "lookup_prop (publish_request p (js ''<p>x</p>'')) (js ''provider'') = JStr p"
  "js ''<p>x</p>'' \<noteq> []"
  by (simp_all add: publish_request_def lookup_prop_def js_def)

lemma example_credentials:
  "NETLIFY_TOKEN credentials = Some (js ''nt'')" "NETLIFY_SITE_ID credentials = Some (js ''site'')"
  "VERCEL_TOKEN credentials = Some (js ''vt'')" "VERCEL_PROJECT_ID credentials = Some (js ''proj'')"
  "VERCEL_TEAM_ID credentials = None"
  "env_truthy (Some (js ''nt''))" "env_truthy (Some (js ''site''))"
  "env_truthy (Some (js ''vt''))" "env_truthy (Some (js ''proj''))"
  by (simp_all add: credentials_def env_truthy_def js_def)

lemma example_no_credentials:
  "\<not> (env_truthy (NETLIFY_TOKEN no_credentials) \<and> env_truthy (NETLIFY_SITE_ID no_credentials))"
  "\<not> (env_truthy (VERCEL_TOKEN no_credentials) \<and> env_truthy (VERCEL_PROJECT_ID no_credentials))"
  by (simp_all add: no_credentials_def env_truthy_def)


lemma vercel_sends:
  assumes "env_truthy (VERCEL_TOKEN E)" "env_truthy (VERCEL_PROJECT_ID E)"
  shows "Fetched (vercel_request (VERCEL_TOKEN E)
           (vercel_payload P (VERCEL_PROJECT_ID E) (VERCEL_TEAM_ID E) (utf8_encode h)))
         \<in> set (fst (vercel P E (JStr h) z))"
  using assms by (simp add: vercel_def Buffer_from_def Let_def split: sum.split)

lemma POST_vercel_events:
  assumes "json \<noteq> JNull" and "lookup_prop json (js ''html'') = JStr h" and "h \<noteq> []"
    and "lookup_prop json (js ''provider'') = JStr (js ''vercel'')"
    and "env_truthy (VERCEL_TOKEN E)" and "env_truthy (VERCEL_PROJECT_ID E)"
  shows "ZipGenerated (html_entries h) \<in> set (fst (POST P E (Inr json)))"
    and "Fetched (vercel_request (VERCEL_TOKEN E)
           (vercel_payload P (VERCEL_PROJECT_ID E) (VERCEL_TEAM_ID E) (utf8_encode h)))
         \<in> set (fst (POST P E (Inr json)))"
proof -
  have t: "truthy (lookup_prop json (js ''provider''))"
    using assms(4) by (simp add: js_def)
  have nv: "lookup_prop json (js ''provider'') \<noteq> JStr (js ''netlify'')"
    using assms(4) netlify_neq_vercel by auto
  obtain evs r where v: "vercel P E (JStr h) (jszip_generate P (html_entries h)) = (evs, r)"
    by (cases "vercel P E (JStr h) (jszip_generate P (html_entries h))")
  have p: "fst (POST P E (Inr json)) = ZipGenerated (html_entries h) # evs
           \<or> (\<exists>e. fst (POST P E (Inr json)) = ZipGenerated (html_entries h) # evs @ [ConsoleError e])"
    using assms(4) nv by (cases r) (simp_all add: POST_def POST_try_string [OF assms(1-3) t] v)
  from p show "ZipGenerated (html_entries h) \<in> set (fst (POST P E (Inr json)))"
    by auto
  from vercel_sends [OF assms(5,6), of P h "jszip_generate P (html_entries h)"] v p
  show "Fetched (vercel_request (VERCEL_TOKEN E)
           (vercel_payload P (VERCEL_PROJECT_ID E) (VERCEL_TEAM_ID E) (utf8_encode h)))
         \<in> set (fst (POST P E (Inr json)))"
    by auto
qed

lemma payload_file_index:
  "payload_file (vercel_payload P projectId teamId data) (js ''index.html'') =
     Some (JObj [(js ''file'', JStr (js ''index.html'')),
                 (js ''data'', JStr (base64_encode data)),
                 (js ''sha'', JStr (hex_encode (sha1_digest data)))])"
  by (simp add: payload_file_def vercel_payload_def vercel_files_def lookup_prop_def sha1_hex js_def)

lemma payload_file_manifest:
  "payload_file (vercel_payload P projectId teamId data) (js ''package.json'') =
     Some (JObj [(js ''file'', JStr (js ''package.json'')),
                 (js ''data'', JStr (base64_encode (utf8_encode (JSON_stringify 0 manifest)))),
                 (js ''sha'', JStr (hex_encode (sha1_digest (utf8_encode (JSON_stringify 0 manifest)))))])"
  by (simp add: payload_file_def vercel_payload_def vercel_files_def lookup_prop_def sha1_hex js_def)

lemma utf8_encode_inj:
  assumes "wf_utf16 a" "wf_utf16 b" "utf8_encode a = utf8_encode b"
  shows "a = b"
proof -
  have "Some a = utf8_decode (utf8_encode a)"
    by (simp only: utf8_roundtrip [OF assms(1)])
  also have "\<dots> = utf8_decode (utf8_encode b)"
    by (simp only: assms(3))
  also have "\<dots> = Some b"
    by (rule utf8_roundtrip [OF assms(2)])
  finally show ?thesis by simp
qed

lemma manifest_bytes_differ:
  "utf8_encode (JSON_stringify 0 manifest) \<noteq> utf8_encode (JSON_stringify 2 manifest)"
  using utf8_encode_inj [OF wf_manifest_compact wf_manifest_pretty] manifest_texts_differ by blast

lemma manifest_bytes_decode:
  "Option.bind (utf8_decode (utf8_encode (JSON_stringify 0 manifest))) JSON_parse = Some manifest"
  "Option.bind (utf8_decode (utf8_encode (JSON_stringify 2 manifest))) JSON_parse = Some manifest"
  by (simp_all add: utf8_roundtrip wf_manifest_compact wf_manifest_pretty
      parse_manifest_compact parse_manifest_pretty)




lemma fallback_response:
  "fallback m zipped =
     \<lparr>resp_status = 200,
      resp_body = JObj [(js ''message'', JStr m), (js ''zipBase64'', JStr (base64_encode zipped))]\<rparr>"
  by (simp add: fallback_def NextResponse_json_def)

lemma POST_netlify_fallback:
  assumes "json \<noteq> JNull" and "lookup_prop json (js ''html'') = JStr h" and "h \<noteq> []"
    and "lookup_prop json (js ''provider'') = JStr (js ''netlify'')"
    and "\<not> (env_truthy (NETLIFY_TOKEN E) \<and> env_truthy (NETLIFY_SITE_ID E))"
  shows "POST P E (Inr json) =
     ([ZipGenerated (html_entries h)],
      fallback (js ''NETLIFY_TOKEN and NETLIFY_SITE_ID must be set as environment variables to deploy.'')
        (jszip_generate P (html_entries h)))"
proof -
  have t: "truthy (lookup_prop json (js ''provider''))"
    using assms(4) by (simp add: js_def)
  have n: "netlify P E z =
     ([], Inr (fallback
        (js ''NETLIFY_TOKEN and NETLIFY_SITE_ID must be set as environment variables to deploy.'') z))" for z
    using assms(5) by (auto simp: netlify_def)
  show ?thesis
    using assms(4) by (simp add: POST_def POST_try_string [OF assms(1-3) t] n)
qed




lemma encode_lone_surrogate: "utf8_encode [0xD800] = [0xEF, 0xBF, 0xBD]"
  by (simp add: enc_unit_def is_high_def)

lemma encode_replacement: "utf8_encode [0xFFFD] = [0xEF, 0xBF, 0xBD]"
  by (simp add: enc_unit_def enc_cp_def is_high_def is_low_def)

lemma surrogate_request:
  "publish_request p [u] \<noteq> JNull"
  "lookup_prop (publish_request p [u]) (js ''html'') = JStr [u]"
  "lookup_prop (publish_request p [u]) (js ''provider'') = JStr p"
  by (simp_all add: publish_request_def lookup_prop_def js_def)

section \<open>Properties of the renderer\<close>

text \<open>A run of consecutive pieces of the template is a part of the page.\<close>

lemma concat_slices:
  "concat ps = concat (take n ps) @ concat (take k (drop n ps)) @ concat (drop k (drop n ps))"
  by (metis append_take_drop_id concat_append)

lemma sublist_concat_slice: "sublist (concat (take k (drop n ps))) (concat ps)"
  using concat_slices [of ps n k] by (metis sublist_appendI)

lemma buildHtml_title:
  "sublist (js ''  <title>'' @ headline d @ line ''</title>'') (buildHtml y d)"
  using sublist_concat_slice [of 3 5 "buildHtml_parts y d"]
  by (simp add: buildHtml_def buildHtml_parts_def)

lemma buildHtml_h1:
  "sublist (js ''      <h1>'' @ headline d @ line ''</h1>'') (buildHtml y d)"
  using sublist_concat_slice [of 3 25 "buildHtml_parts y d"]
  by (simp add: buildHtml_def buildHtml_parts_def)

lemma buildHtml_subheadline:
  "sublist (js ''      <p>'' @ subheadline d @ line ''</p>'') (buildHtml y d)"
  using sublist_concat_slice [of 3 28 "buildHtml_parts y d"]
  by (simp add: buildHtml_def buildHtml_parts_def)

lemma buildHtml_cta:
  \<open>sublist (js ''      <a href="https://wa.me/9580378761" class="btn">''
             @ (if cta d \<noteq> [] then cta d else js ''Contact Us'') @ line ''</a>'')
     (buildHtml y d)\<close>
  using sublist_concat_slice [of 3 31 "buildHtml_parts y d"]
  by (simp add: buildHtml_def buildHtml_parts_def split del: if_split)

lemma buildHtml_about:
  "sublist (line ''      <h2>About Us</h2>'' @ js ''      <p>'' @ about d @ line ''</p>'')
     (buildHtml y d)"
  using sublist_concat_slice [of 4 41 "buildHtml_parts y d"]
  by (simp add: buildHtml_def buildHtml_parts_def)

lemma buildHtml_services:
  \<open>sublist (line ''      <ul class="services">'' @ js ''        ''
             @ concat (map (\<lambda>s. js ''<li>'' @ [0x2022, 0x20] @ s @ js ''</li>'') (services d))
             @ [0x0A] @ line ''      </ul>'')
     (buildHtml y d)\<close>
  using sublist_concat_slice [of 5 48 "buildHtml_parts y d"]
  by (simp add: buildHtml_def buildHtml_parts_def)

lemma buildHtml_color:
  "\<exists>A B C.
     (\<forall>c. buildHtml y (d\<lparr>color := c\<rparr>) = A @ c @ B @ c @ C)
     \<and> suffix (js ''    .hero{ background: linear-gradient(135deg, '') A
     \<and> prefix (line '', #111827); color:white; padding:64px 20px; }'') B
     \<and> suffix (js ''    .btn{ background:'') B
     \<and> prefix (line ''; color:white; border-radius:10px; padding:12px 18px; text-decoration:none; display:inline-block; }'') C"
proof (intro exI conjI allI)
  fix c
  show "buildHtml y (d\<lparr>color := c\<rparr>) =
      concat (take 11 (buildHtml_parts y d)) @ c
      @ concat (take 4 (drop 12 (buildHtml_parts y d))) @ c
      @ concat (drop 17 (buildHtml_parts y d))"
    by (simp add: buildHtml_def buildHtml_parts_def)
  show "suffix (js ''    .hero{ background: linear-gradient(135deg, '')
      (concat (take 11 (buildHtml_parts y d)))"
    by (simp add: buildHtml_parts_def suffix_def)
  show "prefix (line '', #111827); color:white; padding:64px 20px; }'')
      (concat (take 4 (drop 12 (buildHtml_parts y d))))"
    by (simp add: buildHtml_parts_def)
  show "suffix (js ''    .btn{ background:'') (concat (take 4 (drop 12 (buildHtml_parts y d))))"
    by (simp add: buildHtml_parts_def suffix_def)
  show "prefix (line ''; color:white; border-radius:10px; padding:12px 18px; text-decoration:none; display:inline-block; }'')
      (concat (drop 17 (buildHtml_parts y d)))"
    by (simp add: buildHtml_parts_def)
qed

section \<open>The claims about the publish route\<close>

text \<open>
  Claim C6, as stated: every request in which \<open>html\<close> or \<open>provider\<close> is missing is
  answered with status 400.  A body that is the JSON value \<open>null\<close> has neither field;
  destructuring it on line 18 throws, and the \<open>catch\<close> answers with status 500 and
  \<open>Server error\<close>.  A body that is not JSON ends there too.
\<close>

theorem null_body_counterexample:
  "lookup_prop JNull (js ''html'') = JUndefined
   \<and> lookup_prop JNull (js ''provider'') = JUndefined
   \<and> POST (mock_platform deployed) credentials (Inr JNull) =
       ([ConsoleError (JsError (js ''Cannot read properties of null''))],
        \<lparr>resp_status = 500,
         resp_body = JObj [(js ''error'', JStr (js ''Server error'')),
                           (js ''details'', JStr (js ''Cannot read properties of null''))]\<rparr>)
   \<and> POST (mock_platform deployed) credentials (Inl (JsError (js ''Unexpected token''))) =
       ([ConsoleError (JsError (js ''Unexpected token''))],
        \<lparr>resp_status = 500,
         resp_body = JObj [(js ''error'', JStr (js ''Server error'')),
                           (js ''details'', JStr (js ''Unexpected token''))]\<rparr>)"
  by (simp add: route_defs example_defs)

text \<open>
  Claim C6, amended.  A request whose body is a JSON value other than \<open>null\<close> and in
  which \<open>html\<close> is missing or \<open>provider\<close> is missing is answered with status 400 and the
  error \<open>Missing html or provider\<close>; nothing has happened before: no archive was built
  and no request was sent.
\<close>

theorem missing_field_invalid_request:
  assumes "json \<noteq> JNull"
    and "lookup_prop json (js ''html'') = JUndefined \<or> lookup_prop json (js ''provider'') = JUndefined"
  shows "POST P E (Inr json) =
           ([], \<lparr>resp_status = 400,
                 resp_body = JObj [(js ''error'', JStr (js ''Missing html or provider''))]\<rparr>)"
  using assms by (auto simp: POST_def POST_try_def get_prop_def NextResponse_json_def)

theorem missing_field_invalid_request_witness:
  "JObj [(js ''provider'', JStr (js ''netlify''))] \<noteq> JNull
   \<and> lookup_prop (JObj [(js ''provider'', JStr (js ''netlify''))]) (js ''html'') = JUndefined
   \<and> POST (mock_platform deployed) credentials (Inr (JObj [(js ''provider'', JStr (js ''netlify''))])) =
           ([], \<lparr>resp_status = 400,
                 resp_body = JObj [(js ''error'', JStr (js ''Missing html or provider''))]\<rparr>)"
proof -
  have h: "lookup_prop (JObj [(js ''provider'', JStr (js ''netlify''))]) (js ''html'') = JUndefined"
    by (simp add: lookup_prop_def js_def)
  show ?thesis
    using missing_field_invalid_request
      [of "JObj [(js ''provider'', JStr (js ''netlify''))]" "mock_platform deployed" credentials] h
    by simp
qed

text \<open>
  Claim C7, as stated: every request with non-empty \<open>html\<close> and a provider value that is
  neither \<open>netlify\<close> nor \<open>vercel\<close> is answered with \<open>Unknown provider\<close>.  The empty
  string is such a provider value, and line 19 answers it with \<open>Missing html or provider\<close>.
\<close>

theorem empty_provider_counterexample:
  "snd (POST (mock_platform deployed) credentials (Inr (publish_request [] (js ''<p>x</p>'')))) =
     \<lparr>resp_status = 400, resp_body = JObj [(js ''error'', JStr (js ''Missing html or provider''))]\<rparr>
   \<and> snd (POST (mock_platform deployed) credentials (Inr (publish_request [] (js ''<p>x</p>'')))) \<noteq>
     \<lparr>resp_status = 400, resp_body = JObj [(js ''error'', JStr (js ''Unknown provider''))]\<rparr>"
  by (simp add: route_defs example_defs js_def)

text \<open>
  Claim C7, amended.  A request with a non-empty string \<open>html\<close> and a truthy provider
  value that is neither \<open>netlify\<close> nor \<open>vercel\<close> is answered with status 400 and the error
  \<open>Unknown provider\<close>; the archive has been built by then, and no request was sent.
\<close>

theorem unknown_provider_rejected:
  assumes "lookup_prop json (js ''html'') = JStr h" and "h \<noteq> []"
    and "truthy (lookup_prop json (js ''provider''))"
    and "lookup_prop json (js ''provider'') \<noteq> JStr (js ''netlify'')"
    and "lookup_prop json (js ''provider'') \<noteq> JStr (js ''vercel'')"
  shows "POST P E (Inr json) =
           ([ZipGenerated (html_entries h)],
            \<lparr>resp_status = 400, resp_body = JObj [(js ''error'', JStr (js ''Unknown provider''))]\<rparr>)"
  using assms lookup_prop_string_not_null [OF assms(1)]
  by (simp add: POST_def POST_try_string NextResponse_json_def)

theorem unknown_provider_rejected_witness:
  "POST (mock_platform deployed) credentials (Inr (publish_request (js ''bogus'') (js ''<p>x</p>''))) =
           ([ZipGenerated (html_entries (js ''<p>x</p>''))],
            \<lparr>resp_status = 400, resp_body = JObj [(js ''error'', JStr (js ''Unknown provider''))]\<rparr>)"
proof -
  have "lookup_prop (publish_request (js ''bogus'') (js ''<p>x</p>'')) (js ''html'') = JStr (js ''<p>x</p>'')"
    and "js ''<p>x</p>'' \<noteq> []"
    and "truthy (lookup_prop (publish_request (js ''bogus'') (js ''<p>x</p>'')) (js ''provider''))"
    and "lookup_prop (publish_request (js ''bogus'') (js ''<p>x</p>'')) (js ''provider'') \<noteq> JStr (js ''netlify'')"
    and "lookup_prop (publish_request (js ''bogus'') (js ''<p>x</p>'')) (js ''provider'') \<noteq> JStr (js ''vercel'')"
    by (simp_all add: lookup_prop_def publish_request_def js_def)
  then show ?thesis
    by (rule unknown_provider_rejected)
qed

text \<open>
  Claim C8, as stated: every failure carries both an \<open>error\<close> and a \<open>details\<close> member.
  The answer to a request without fields is a failure and has no \<open>details\<close>.
\<close>

theorem invalid_request_details_counterexample:
  "has_member (resp_body (snd (POST (mock_platform deployed) credentials (Inr (JObj []))))) (js ''error'')
   \<and> resp_status (snd (POST (mock_platform deployed) credentials (Inr (JObj [])))) = 400
   \<and> \<not> has_member (resp_body (snd (POST (mock_platform deployed) credentials (Inr (JObj []))))) (js ''details'')"
  by (simp add: route_defs has_member_def js_def)

text \<open>
  Claim C8, amended.  Every answer of the route is of one of three kinds: a 200 without
  an \<open>error\<close> member; a 400 with an \<open>error\<close> member, which is \<open>Missing html or provider\<close>
  or \<open>Unknown provider\<close>, and without \<open>details\<close>; a 500 with an \<open>error\<close> member, which is
  \<open>Netlify deploy failed\<close>, \<open>Vercel deploy failed\<close> or \<open>Server error\<close>, and with a string
  \<open>details\<close>.
\<close>

theorem failure_responses:
  "(resp_status (snd (POST P E parsed)) = 200
      \<and> \<not> has_member (resp_body (snd (POST P E parsed))) (js ''error''))
   \<or> (resp_status (snd (POST P E parsed)) = 400
      \<and> has_member (resp_body (snd (POST P E parsed))) (js ''error'')
      \<and> \<not> has_member (resp_body (snd (POST P E parsed))) (js ''details'')
      \<and> (lookup_prop (resp_body (snd (POST P E parsed))) (js ''error'') = JStr (js ''Missing html or provider'')
         \<or> lookup_prop (resp_body (snd (POST P E parsed))) (js ''error'') = JStr (js ''Unknown provider'')))
   \<or> (resp_status (snd (POST P E parsed)) = 500
      \<and> has_member (resp_body (snd (POST P E parsed))) (js ''error'')
      \<and> (\<exists>d. lookup_prop (resp_body (snd (POST P E parsed))) (js ''details'') = JStr d)
      \<and> (lookup_prop (resp_body (snd (POST P E parsed))) (js ''error'') = JStr (js ''Netlify deploy failed'')
         \<or> lookup_prop (resp_body (snd (POST P E parsed))) (js ''error'') = JStr (js ''Vercel deploy failed'')
         \<or> lookup_prop (resp_body (snd (POST P E parsed))) (js ''error'') = JStr (js ''Server error'')))"
  using answer_members(1,2) [OF POST_answers [of P E parsed]] by blast

theorem failure_responses_witness:
  "resp_status (snd (POST (mock_platform quota_exceeded) credentials
       (Inr (publish_request (js ''netlify'') (js ''<p>x</p>''))))) = 500
   \<and> has_member (resp_body (snd (POST (mock_platform quota_exceeded) credentials
       (Inr (publish_request (js ''netlify'') (js ''<p>x</p>'')))))) (js ''error'')
   \<and> lookup_prop (resp_body (snd (POST (mock_platform quota_exceeded) credentials
       (Inr (publish_request (js ''netlify'') (js ''<p>x</p>'')))))) (js ''details'') = JStr (js ''quota exceeded'')"
  using failure_responses [of "mock_platform quota_exceeded" credentials
      "Inr (publish_request (js ''netlify'') (js ''<p>x</p>''))"]
  unfolding example_netlify_quota
  by (simp add: has_member_def lookup_prop_def js_def)

text \<open>
  Claim C9.  A request whose \<open>html\<close> is the empty string is answered like one without
  \<open>html\<close>: status 400, \<open>Missing html or provider\<close>, whatever the provider and the
  credentials; no archive was built and no request was sent.
\<close>

theorem empty_html_invalid_request:
  assumes "lookup_prop json (js ''html'') = JStr []"
  shows "POST P E (Inr json) =
           ([], \<lparr>resp_status = 400,
                 resp_body = JObj [(js ''error'', JStr (js ''Missing html or provider''))]\<rparr>)"
  using assms lookup_prop_string_not_null [OF assms]
  by (simp add: POST_def POST_try_def get_prop_def NextResponse_json_def)

theorem empty_html_invalid_request_witness:
  "lookup_prop (publish_request (js ''vercel'') []) (js ''html'') = JStr []
   \<and> POST (mock_platform deployed) credentials (Inr (publish_request (js ''vercel'') [])) =
           ([], \<lparr>resp_status = 400,
                 resp_body = JObj [(js ''error'', JStr (js ''Missing html or provider''))]\<rparr>)"
proof -
  have h: "lookup_prop (publish_request (js ''vercel'') []) (js ''html'') = JStr []"
    by (simp add: lookup_prop_def publish_request_def js_def)
  show ?thesis
    using empty_html_invalid_request [OF h, of "mock_platform deployed" credentials] h
    by simp
qed

text \<open>
  Claim C10.  An answer that carries \<open>zipBase64\<close> has status 200, and so has an answer
  that carries \<open>url\<close>: the status does not tell a fallback from a success.
\<close>

theorem fallback_status_200:
  "(has_member (resp_body (snd (POST P E parsed))) (js ''zipBase64'') \<longrightarrow>
      resp_status (snd (POST P E parsed)) = 200)
   \<and> (has_member (resp_body (snd (POST P E parsed))) (js ''url'') \<longrightarrow>
      resp_status (snd (POST P E parsed)) = 200)"
  using answer_members(3,4) [OF POST_answers [of P E parsed]] by blast

theorem fallback_status_200_witness:
  "has_member (resp_body (snd (POST (mock_platform deployed) no_credentials
       (Inr (publish_request (js ''netlify'') (js ''<p>x</p>'')))))) (js ''zipBase64'')
   \<and> resp_status (snd (POST (mock_platform deployed) no_credentials
       (Inr (publish_request (js ''netlify'') (js ''<p>x</p>''))))) = 200
   \<and> has_member (resp_body (snd (POST (mock_platform deployed) credentials
       (Inr (publish_request (js ''vercel'') (js ''<p>x</p>'')))))) (js ''url'')
   \<and> resp_status (snd (POST (mock_platform deployed) credentials
       (Inr (publish_request (js ''vercel'') (js ''<p>x</p>''))))) = 200"
  using fallback_status_200 [of "mock_platform deployed" no_credentials
      "Inr (publish_request (js ''netlify'') (js ''<p>x</p>''))"]
    fallback_status_200 [of "mock_platform deployed" credentials
      "Inr (publish_request (js ''vercel'') (js ''<p>x</p>''))"]
  unfolding example_netlify_fallback example_vercel_deployed
  by (simp add: has_member_def lookup_prop_def js_def)



text \<open>
  Outside that domain the archive cannot give the string back: an unpaired surrogate
  has no UTF-8 form, the entry holds U+FFFD in its place, and the route's answer is the
  one it gives for the string with U+FFFD.
\<close>

lemma unpaired_surrogate_replaced:
  "POST (mock_platform deployed) no_credentials (Inr (publish_request (js ''netlify'') [0xD800])) =
     ([ZipGenerated [(js ''index.html'', [0xEF, 0xBF, 0xBD]),
                     (js ''package.json'', utf8_encode (JSON_stringify 2 manifest))]],
      \<lparr>resp_status = 200,
       resp_body =
         JObj [(js ''message'',
                JStr (js ''NETLIFY_TOKEN and NETLIFY_SITE_ID must be set as environment variables to deploy.'')),
               (js ''zipBase64'',
                JStr (base64_encode
                       (jszip_generate (mock_platform deployed)
                          [(js ''index.html'', [0xEF, 0xBF, 0xBD]),
                           (js ''package.json'', utf8_encode (JSON_stringify 2 manifest))])))]\<rparr>)
   \<and> utf8_decode [0xEF, 0xBF, 0xBD] = Some [0xFFFD]
   \<and> utf8_decode [0xEF, 0xBF, 0xBD] \<noteq> Some [0xD800]
   \<and> POST (mock_platform deployed) no_credentials (Inr (publish_request (js ''netlify'') [0xD800])) =
       POST (mock_platform deployed) no_credentials (Inr (publish_request (js ''netlify'') [0xFFFD]))"
proof -
  have a: "POST (mock_platform deployed) no_credentials (Inr (publish_request (js ''netlify'') [u])) =
     ([ZipGenerated (html_entries [u])],
      fallback (js ''NETLIFY_TOKEN and NETLIFY_SITE_ID must be set as environment variables to deploy.'')
        (jszip_generate (mock_platform deployed) (html_entries [u])))" for u
    by (rule POST_netlify_fallback [OF surrogate_request(1,2) _ surrogate_request(3)
          example_no_credentials(1)]) simp
  have d: "utf8_decode [0xEF, 0xBF, 0xBD] = Some [0xFFFD]"
    by (simp add: is_cont_def units_of_cp_def)
  show ?thesis
    unfolding a d encode_lone_surrogate encode_replacement fallback_response by simp
qed

text \<open>
  Claim C2.  On the Vercel path with \<open>VERCEL_TOKEN\<close> and \<open>VERCEL_PROJECT_ID\<close> set, the
  route sends a request whose body is the JSON text of a deployment in which the file
  entry \<open>index.html\<close> has \<open>data\<close> equal to the base64 of the UTF-8 bytes of \<open>html\<close> and
  \<open>sha\<close> equal to the hexadecimal SHA-1 digest of the same bytes.
\<close>

theorem vercel_index_html_entry:
  assumes "lookup_prop json (js ''html'') = JStr h" and "h \<noteq> []"
    and "lookup_prop json (js ''provider'') = JStr (js ''vercel'')"
    and "env_truthy (VERCEL_TOKEN E)" and "env_truthy (VERCEL_PROJECT_ID E)"
  shows "Fetched (vercel_request (VERCEL_TOKEN E)
           (vercel_payload P (VERCEL_PROJECT_ID E) (VERCEL_TEAM_ID E) (utf8_encode h)))
         \<in> set (fst (POST P E (Inr json)))
     \<and> req_body (vercel_request (VERCEL_TOKEN E)
           (vercel_payload P (VERCEL_PROJECT_ID E) (VERCEL_TEAM_ID E) (utf8_encode h))) =
         JsonText (JSON_stringify 0
           (vercel_payload P (VERCEL_PROJECT_ID E) (VERCEL_TEAM_ID E) (utf8_encode h)))
     \<and> payload_file (vercel_payload P (VERCEL_PROJECT_ID E) (VERCEL_TEAM_ID E) (utf8_encode h))
           (js ''index.html'') =
         Some (JObj [(js ''file'', JStr (js ''index.html'')),
                     (js ''data'', JStr (base64_encode (utf8_encode h))),
                     (js ''sha'', JStr (hex_encode (sha1_digest (utf8_encode h))))])"
  using POST_vercel_events(2) [OF lookup_prop_string_not_null [OF assms(1)] assms] payload_file_index
  by (simp add: vercel_request_def)

theorem vercel_index_html_entry_witness:
  "Fetched (vercel_request (Some (js ''vt''))
      (vercel_payload (mock_platform deployed) (Some (js ''proj'')) None (utf8_encode (js ''<p>x</p>''))))
     \<in> set (fst (POST (mock_platform deployed) credentials
                 (Inr (publish_request (js ''vercel'') (js ''<p>x</p>'')))))
   \<and> payload_file
        (vercel_payload (mock_platform deployed) (Some (js ''proj'')) None (utf8_encode (js ''<p>x</p>'')))
        (js ''index.html'') =
      Some (JObj [(js ''file'', JStr (js ''index.html'')),
                  (js ''data'', JStr (js ''PHA+eDwvcD4='')),
                  (js ''sha'', JStr (hex_encode (sha1_digest (utf8_encode (js ''<p>x</p>'')))))])"
proof -
  have b: "base64_encode (utf8_encode (js ''<p>x</p>'')) = js ''PHA+eDwvcD4=''"
    by (simp add: js_def enc_unit_def enc_cp_def is_high_def is_low_def b64_char_def)
  note th = vercel_index_html_entry
    [OF example_request(2,4,3), of credentials "mock_platform deployed",
      unfolded example_credentials(3,4,5), OF example_credentials(8,9)]
  from th show ?thesis
    unfolding b [symmetric] by (simp only: simp_thms)
qed

text \<open>
  Claim C3, as stated: the manifest bytes in the deployment's \<open>package.json\<close> entry are
  those of the archive's \<open>package.json\<close> entry.  The archive holds the manifest indented
  by two spaces (line 27), the deployment holds it without white space (lines 88, 89).
\<close>

theorem manifest_bytes_counterexample:
  "fst (POST (mock_platform deployed) credentials
          (Inr (publish_request (js ''vercel'') (js ''<p>x</p>'')))) =
     [ZipGenerated [(js ''index.html'', utf8_encode (js ''<p>x</p>'')),
                    (js ''package.json'', utf8_encode (JSON_stringify 2 manifest))],
      Fetched (vercel_request (Some (js ''vt''))
        (vercel_payload (mock_platform deployed) (Some (js ''proj'')) None
           (utf8_encode (js ''<p>x</p>''))))]
   \<and> payload_file
        (vercel_payload (mock_platform deployed) (Some (js ''proj'')) None (utf8_encode (js ''<p>x</p>'')))
        (js ''package.json'') =
      Some (JObj [(js ''file'', JStr (js ''package.json'')),
                  (js ''data'', JStr (base64_encode (utf8_encode (JSON_stringify 0 manifest)))),
                  (js ''sha'', JStr (hex_encode (sha1_digest (utf8_encode (JSON_stringify 0 manifest)))))])
   \<and> utf8_encode (JSON_stringify 0 manifest) \<noteq> utf8_encode (JSON_stringify 2 manifest)"
proof -
  have "fst (POST (mock_platform deployed) credentials
          (Inr (publish_request (js ''vercel'') (js ''<p>x</p>'')))) =
     [ZipGenerated [(js ''index.html'', utf8_encode (js ''<p>x</p>'')),
                    (js ''package.json'', utf8_encode (JSON_stringify 2 manifest))],
      Fetched (vercel_request (Some (js ''vt''))
        (vercel_payload (mock_platform deployed) (Some (js ''proj'')) None
           (utf8_encode (js ''<p>x</p>''))))]"
    by (simp add: route_defs example_defs js_def)
  then show ?thesis
    using payload_file_manifest manifest_bytes_differ by simp
qed

text \<open>
  Claim C3, amended.  On the Vercel path with credentials set, the \<open>data\<close> and the \<open>sha\<close>
  of the deployment's \<open>package.json\<close> entry are the base64 and the SHA-1 of one byte
  string, the manifest serialised without white space; the archive's \<open>package.json\<close>
  entry is the manifest serialised with an indentation of two spaces; the two byte strings
  differ, and both decode to the same JSON object.
\<close>

theorem vercel_manifest_entry:
  assumes "lookup_prop json (js ''html'') = JStr h" and "h \<noteq> []"
    and "lookup_prop json (js ''provider'') = JStr (js ''vercel'')"
    and "env_truthy (VERCEL_TOKEN E)" and "env_truthy (VERCEL_PROJECT_ID E)"
  shows "ZipGenerated (html_entries h) \<in> set (fst (POST P E (Inr json)))
     \<and> Fetched (vercel_request (VERCEL_TOKEN E)
           (vercel_payload P (VERCEL_PROJECT_ID E) (VERCEL_TEAM_ID E) (utf8_encode h)))
         \<in> set (fst (POST P E (Inr json)))
     \<and> payload_file (vercel_payload P (VERCEL_PROJECT_ID E) (VERCEL_TEAM_ID E) (utf8_encode h))
           (js ''package.json'') =
         Some (JObj [(js ''file'', JStr (js ''package.json'')),
                     (js ''data'', JStr (base64_encode (utf8_encode (JSON_stringify 0 manifest)))),
                     (js ''sha'', JStr (hex_encode (sha1_digest (utf8_encode (JSON_stringify 0 manifest)))))])
     \<and> map_of (html_entries h) (js ''package.json'') = Some (utf8_encode (JSON_stringify 2 manifest))
     \<and> utf8_encode (JSON_stringify 0 manifest) \<noteq> utf8_encode (JSON_stringify 2 manifest)
     \<and> Option.bind (utf8_decode (utf8_encode (JSON_stringify 0 manifest))) JSON_parse = Some manifest
     \<and> Option.bind (utf8_decode (utf8_encode (JSON_stringify 2 manifest))) JSON_parse = Some manifest"
proof -
  have m: "map_of (html_entries h) (js ''package.json'') = Some (utf8_encode (JSON_stringify 2 manifest))"
    by (simp add: js_def)
  show ?thesis
    using POST_vercel_events [OF lookup_prop_string_not_null [OF assms(1)] assms] payload_file_manifest manifest_bytes_differ
      manifest_bytes_decode m
    by simp
qed

theorem vercel_manifest_entry_witness:
  "ZipGenerated (html_entries (js ''<p>x</p>''))
     \<in> set (fst (POST (mock_platform deployed) credentials
                 (Inr (publish_request (js ''vercel'') (js ''<p>x</p>'')))))
   \<and> payload_file
        (vercel_payload (mock_platform deployed) (Some (js ''proj'')) None (utf8_encode (js ''<p>x</p>'')))
        (js ''package.json'') =
      Some (JObj [(js ''file'', JStr (js ''package.json'')),
                  (js ''data'', JStr (base64_encode (utf8_encode (JSON_stringify 0 manifest)))),
                  (js ''sha'', JStr (hex_encode (sha1_digest (utf8_encode (JSON_stringify 0 manifest)))))])
   \<and> map_of (html_entries (js ''<p>x</p>'')) (js ''package.json'') =
      Some (utf8_encode (JSON_stringify 2 manifest))"
  using vercel_manifest_entry
    [OF example_request(2,4,3), of credentials "mock_platform deployed",
      unfolded example_credentials(3,4,5), OF example_credentials(8,9)]
  by (simp only: simp_thms)

text \<open>
  Claim C5.  For both providers: when the credentials are set and the provider answers
  the deployment request with a status outside 200 to 299, the route answers with status
  500, the error \<open>Netlify deploy failed\<close> (or \<open>Vercel deploy failed\<close>) and \<open>details\<close> equal
  to the text of the provider's answer; it has built the archive and sent that one
  request.
\<close>

theorem deploy_error_details:
  assumes "lookup_prop json (js ''html'') = JStr h" and "h \<noteq> []"
    and "\<not> res_ok res"
  shows
    "(lookup_prop json (js ''provider'') = JStr (js ''netlify'')
        \<and> env_truthy (NETLIFY_TOKEN E) \<and> env_truthy (NETLIFY_SITE_ID E)
        \<and> fetch P (netlify_request P (NETLIFY_TOKEN E) (NETLIFY_SITE_ID E)
                     (jszip_generate P (html_entries h))) = Inr res
      \<longrightarrow> POST P E (Inr json) =
            ([ZipGenerated (html_entries h),
              Fetched (netlify_request P (NETLIFY_TOKEN E) (NETLIFY_SITE_ID E)
                         (jszip_generate P (html_entries h)))],
             \<lparr>resp_status = 500,
              resp_body = JObj [(js ''error'', JStr (js ''Netlify deploy failed'')),
                                (js ''details'', JStr (res_text res))]\<rparr>))
     \<and> (lookup_prop json (js ''provider'') = JStr (js ''vercel'')
        \<and> env_truthy (VERCEL_TOKEN E) \<and> env_truthy (VERCEL_PROJECT_ID E)
        \<and> fetch P (vercel_request (VERCEL_TOKEN E)
                     (vercel_payload P (VERCEL_PROJECT_ID E) (VERCEL_TEAM_ID E) (utf8_encode h))) = Inr res
      \<longrightarrow> POST P E (Inr json) =
            ([ZipGenerated (html_entries h),
              Fetched (vercel_request (VERCEL_TOKEN E)
                         (vercel_payload P (VERCEL_PROJECT_ID E) (VERCEL_TEAM_ID E) (utf8_encode h)))],
             \<lparr>resp_status = 500,
              resp_body = JObj [(js ''error'', JStr (js ''Vercel deploy failed'')),
                                (js ''details'', JStr (res_text res))]\<rparr>))"
proof (intro conjI impI)
  note nn = lookup_prop_string_not_null [OF assms(1)]
  assume a: "lookup_prop json (js ''provider'') = JStr (js ''netlify'')
        \<and> env_truthy (NETLIFY_TOKEN E) \<and> env_truthy (NETLIFY_SITE_ID E)
        \<and> fetch P (netlify_request P (NETLIFY_TOKEN E) (NETLIFY_SITE_ID E)
                     (jszip_generate P (html_entries h))) = Inr res"
  then have t: "truthy (lookup_prop json (js ''provider''))" by (simp add: js_def)
  from a have n: "netlify P E (jszip_generate P (html_entries h)) =
     ([Fetched (netlify_request P (NETLIFY_TOKEN E) (NETLIFY_SITE_ID E) (jszip_generate P (html_entries h)))],
      Inr \<lparr>resp_status = 500,
           resp_body = JObj [(js ''error'', JStr (js ''Netlify deploy failed'')),
                             (js ''details'', JStr (res_text res))]\<rparr>)"
    using assms(3) by (intro netlify_not_ok) simp_all
  show "POST P E (Inr json) =
            ([ZipGenerated (html_entries h),
              Fetched (netlify_request P (NETLIFY_TOKEN E) (NETLIFY_SITE_ID E)
                         (jszip_generate P (html_entries h)))],
             \<lparr>resp_status = 500,
              resp_body = JObj [(js ''error'', JStr (js ''Netlify deploy failed'')),
                                (js ''details'', JStr (res_text res))]\<rparr>)"
    using a by (simp add: POST_def POST_try_string [OF nn assms(1,2) t] n)
next
  note nn = lookup_prop_string_not_null [OF assms(1)]
  assume a: "lookup_prop json (js ''provider'') = JStr (js ''vercel'')
        \<and> env_truthy (VERCEL_TOKEN E) \<and> env_truthy (VERCEL_PROJECT_ID E)
        \<and> fetch P (vercel_request (VERCEL_TOKEN E)
                     (vercel_payload P (VERCEL_PROJECT_ID E) (VERCEL_TEAM_ID E) (utf8_encode h))) = Inr res"
  then have t: "truthy (lookup_prop json (js ''provider''))" by (simp add: js_def)
  from a have v: "vercel P E (JStr h) (jszip_generate P (html_entries h)) =
     ([Fetched (vercel_request (VERCEL_TOKEN E)
           (vercel_payload P (VERCEL_PROJECT_ID E) (VERCEL_TEAM_ID E) (utf8_encode h)))],
      Inr \<lparr>resp_status = 500,
           resp_body = JObj [(js ''error'', JStr (js ''Vercel deploy failed'')),
                             (js ''details'', JStr (res_text res))]\<rparr>)"
    using assms(3) by (intro vercel_not_ok) simp_all
  from a have nv: "lookup_prop json (js ''provider'') \<noteq> JStr (js ''netlify'')"
    using netlify_neq_vercel by auto
  show "POST P E (Inr json) =
            ([ZipGenerated (html_entries h),
              Fetched (vercel_request (VERCEL_TOKEN E)
                         (vercel_payload P (VERCEL_PROJECT_ID E) (VERCEL_TEAM_ID E) (utf8_encode h)))],
             \<lparr>resp_status = 500,
              resp_body = JObj [(js ''error'', JStr (js ''Vercel deploy failed'')),
                                (js ''details'', JStr (res_text res))]\<rparr>)"
    using a nv by (simp add: POST_def POST_try_string [OF nn assms(1,2) t] v)
qed

theorem deploy_error_details_witness:
  "POST (mock_platform quota_exceeded) credentials (Inr (publish_request (js ''netlify'') (js ''<p>x</p>''))) =
     ([ZipGenerated (html_entries (js ''<p>x</p>'')),
       Fetched (netlify_request (mock_platform quota_exceeded) (Some (js ''nt'')) (Some (js ''site''))
                  (jszip_generate (mock_platform quota_exceeded) (html_entries (js ''<p>x</p>''))))],
      \<lparr>resp_status = 500,
       resp_body = JObj [(js ''error'', JStr (js ''Netlify deploy failed'')),
                         (js ''details'', JStr (js ''quota exceeded''))]\<rparr>)
   \<and> POST (mock_platform quota_exceeded) credentials (Inr (publish_request (js ''vercel'') (js ''<p>x</p>''))) =
     ([ZipGenerated (html_entries (js ''<p>x</p>'')),
       Fetched (vercel_request (Some (js ''vt''))
                  (vercel_payload (mock_platform quota_exceeded) (Some (js ''proj'')) None
                     (utf8_encode (js ''<p>x</p>''))))],
      \<lparr>resp_status = 500,
       resp_body = JObj [(js ''error'', JStr (js ''Vercel deploy failed'')),
                         (js ''details'', JStr (js ''quota exceeded''))]\<rparr>)"
proof -
  have c: "NETLIFY_TOKEN credentials = Some (js ''nt'')" "NETLIFY_SITE_ID credentials = Some (js ''site'')"
    "VERCEL_TOKEN credentials = Some (js ''vt'')" "VERCEL_PROJECT_ID credentials = Some (js ''proj'')"
    "VERCEL_TEAM_ID credentials = None"
    by (simp_all add: credentials_def)
  have t: "env_truthy (Some (js ''nt''))" "env_truthy (Some (js ''site''))"
    "env_truthy (Some (js ''vt''))" "env_truthy (Some (js ''proj''))"
    by (simp_all add: env_truthy_def js_def)
  have f: "fetch (mock_platform quota_exceeded) req = Inr quota_exceeded" for req
    by (simp add: mock_platform_def)
  have q: "\<not> res_ok quota_exceeded" "res_text quota_exceeded = js ''quota exceeded''"
    by (simp_all add: res_ok_def quota_exceeded_def)
  have r: "publish_request p (js ''<p>x</p>'') \<noteq> JNull"
    "lookup_prop (publish_request p (js ''<p>x</p>'')) (js ''html'') = JStr (js ''<p>x</p>'')"
    "lookup_prop (publish_request p (js ''<p>x</p>'')) (js ''provider'') = JStr p" for p
    by (simp_all add: publish_request_def lookup_prop_def js_def)
  have n: "js ''<p>x</p>'' \<noteq> []" by (simp add: js_def)
  from deploy_error_details [OF r(2) n q(1), of "js ''netlify''" credentials "mock_platform quota_exceeded"]
    deploy_error_details [OF r(2) n q(1), of "js ''vercel''" credentials "mock_platform quota_exceeded"]
  show ?thesis
    by (simp add: c t f q(2) r(3))
qed

section \<open>The claim about the renderer\<close>

text \<open>
  Claim C4.  \<open>buildHtml\<close> is a function of the year and the content alone.  Its output
  holds \<open>headline\<close> (as the title and as the heading), \<open>subheadline\<close>, \<open>about\<close>, one
  \<open>li\<close> element for each entry of \<open>services\<close>, in order, inside the list, and \<open>cta\<close> as
  the text of the button, or \<open>Contact Us\<close> when \<open>cta\<close> is empty.  The colour stands in
  exactly two places: the output is \<open>A @ c @ B @ c @ C\<close> for every colour \<open>c\<close>, with
  \<open>A\<close>, \<open>B\<close> and \<open>C\<close> the same for all colours, the first \<open>c\<close> inside the gradient of the
  \<open>.hero\<close> rule and the second as the background of the \<open>.btn\<close> rule.
\<close>

theorem buildHtml_embeds_content:
  \<open>(\<forall>y' d'. y' = y \<and> d' = d \<longrightarrow> buildHtml y' d' = buildHtml y d)
   \<and> sublist (js ''  <title>'' @ headline d @ line ''</title>'') (buildHtml y d)
   \<and> sublist (js ''      <h1>'' @ headline d @ line ''</h1>'') (buildHtml y d)
   \<and> sublist (js ''      <p>'' @ subheadline d @ line ''</p>'') (buildHtml y d)
   \<and> sublist (line ''      <h2>About Us</h2>'' @ js ''      <p>'' @ about d @ line ''</p>'')
        (buildHtml y d)
   \<and> sublist (line ''      <ul class="services">'' @ js ''        ''
               @ concat (map (\<lambda>s. js ''<li>'' @ [0x2022, 0x20] @ s @ js ''</li>'') (services d))
               @ [0x0A] @ line ''      </ul>'')
        (buildHtml y d)
   \<and> sublist (js ''      <a href="https://wa.me/9580378761" class="btn">''
               @ (if cta d \<noteq> [] then cta d else js ''Contact Us'') @ line ''</a>'')
        (buildHtml y d)
   \<and> (\<exists>A B C.
        (\<forall>c. buildHtml y (d\<lparr>color := c\<rparr>) = A @ c @ B @ c @ C)
        \<and> suffix (js ''    .hero{ background: linear-gradient(135deg, '') A
        \<and> prefix (line '', #111827); color:white; padding:64px 20px; }'') B
        \<and> suffix (js ''    .btn{ background:'') B
        \<and> prefix (line ''; color:white; border-radius:10px; padding:12px 18px; text-decoration:none; display:inline-block; }'') C)\<close>
proof (intro conjI)
  show "\<forall>y' d'. y' = y \<and> d' = d \<longrightarrow> buildHtml y' d' = buildHtml y d"
    by simp
qed (rule buildHtml_title buildHtml_h1 buildHtml_subheadline buildHtml_about
      buildHtml_services buildHtml_cta buildHtml_color)+

theorem buildHtml_embeds_content_witness:
  \<open>sublist (js ''  <title>'' @ js ''Peacock Salon'' @ line ''</title>'') (buildHtml 2026 sample_site)
   \<and> sublist (js ''      <h1>'' @ js ''Peacock Salon'' @ line ''</h1>'') (buildHtml 2026 sample_site)
   \<and> sublist (js ''      <p>'' @ js ''Premium hair and beauty'' @ line ''</p>'')
        (buildHtml 2026 sample_site)
   \<and> sublist (line ''      <h2>About Us</h2>'' @ js ''      <p>'' @ js ''A salon in Indore''
               @ line ''</p>'')
        (buildHtml 2026 sample_site)
   \<and> sublist (line ''      <ul class="services">'' @ js ''        ''
               @ (js ''<li>'' @ [0x2022, 0x20] @ js ''Haircuts'' @ js ''</li>'')
               @ (js ''<li>'' @ [0x2022, 0x20] @ js ''Styling'' @ js ''</li>'')
               @ [0x0A] @ line ''      </ul>'')
        (buildHtml 2026 sample_site)
   \<and> sublist (js ''      <a href="https://wa.me/9580378761" class="btn">''
               @ js ''Contact Us'' @ line ''</a>'')
        (buildHtml 2026 sample_site)\<close>
  using buildHtml_embeds_content [of 2026 sample_site]
  by (simp add: sample_site_def)

end
